theory Spec2Isabelle
  imports Main "HOL-Library.Sublist" "HOL-Library.Multiset"
begin

section \<open>Strings\<close>

text \<open>
  A JavaScript string is a sequence of UTF-16 code units. The model's \<^typ>\<open>string\<close> is a
  list of 8-bit characters, read as the code units \<^verbatim>\<open>U+0000\<close> to \<^verbatim>\<open>U+00FF\<close> (the vocabulary,
  the generic option words and every prompt of the program are ASCII); a text with a code
  unit above \<^verbatim>\<open>U+00FF\<close> has no counterpart in the model.

  On these code units \<^verbatim>\<open>String.prototype.toLowerCase\<close> maps the letters \<^verbatim>\<open>A\<close> to \<^verbatim>\<open>Z\<close>
  (65 to 90) and the letters \<^verbatim>\<open>U+00C0\<close> to \<^verbatim>\<open>U+00DE\<close> other than the multiplication sign
  \<^verbatim>\<open>U+00D7\<close> (192 to 222 without 215) to the code unit 32 places higher, and keeps every
  other one. \<^verbatim>\<open>String.prototype.trim\<close> removes white space and line terminators from both
  ends: tab, line feed, vertical tab, form feed, carriage return (9 to 13), space (32)
  and the no-break space \<^verbatim>\<open>U+00A0\<close> (160).
\<close>

definition toLowerChar :: "char \<Rightarrow> char" where
  "toLowerChar c =
     (let n = (of_char c :: nat) in
      if (65 \<le> n \<and> n \<le> 90) \<or> (192 \<le> n \<and> n \<le> 222 \<and> n \<noteq> 215)
      then char_of (n + 32) else c)"

definition toLowerCase :: "string \<Rightarrow> string" where
  "toLowerCase s = map toLowerChar s"

definition isWhiteSpace :: "char \<Rightarrow> bool" where
  "isWhiteSpace c =
     (let n = (of_char c :: nat) in (9 \<le> n \<and> n \<le> 13) \<or> n = 32 \<or> n = 160)"

definition trim :: "string \<Rightarrow> string" where
  "trim s = rev (dropWhile isWhiteSpace (rev (dropWhile isWhiteSpace s)))"

text \<open>
  \<^verbatim>\<open>s.replace(pattern, replacement)\<close> with a string pattern replaces the first occurrence
  of the pattern only (the replacement used by the program, \<^verbatim>\<open>____\<close>, has no \<^verbatim>\<open>$\<close>
  pattern).
\<close>

fun replace :: "string \<Rightarrow> string \<Rightarrow> string \<Rightarrow> string" where
  "replace [] pat rep = (if pat = [] then rep else [])"
| "replace (c # cs) pat rep =
     (if prefix pat (c # cs) then rep @ drop (length pat) (c # cs)
      else c # replace cs pat rep)"

text \<open>
  \<^verbatim>\<open>a || b\<close> on strings that may be absent: the first operand unless it is missing or the
  empty string.
\<close>

definition orElse :: "string option \<Rightarrow> string \<Rightarrow> string" where
  "orElse a b = (case a of None \<Rightarrow> b | Some s \<Rightarrow> if s = [] then b else s)"

section \<open>The vocabulary store (\<^verbatim>\<open>data/oxford3000\<close>)\<close>

datatype level = A1 | A2 | B1 | B2

text \<open>The type \<^verbatim>\<open>'A1' | 'A2' | 'B1' | 'B2' | 'ALL'\<close> of a selected level; \<open>LevelALL\<close> is \<^verbatim>\<open>'ALL'\<close>.\<close>

datatype selected_level = LevelALL | Level level

record Word =
  word :: string
  level :: level
  "definition" :: string
  example :: string
  partOfSpeech :: string

definition oxford3000Words :: "Word list" where
  "oxford3000Words = [
   \<lparr>word = ''about'', level = A1,
    definition = ''on the subject of; concerning'',
    example = ''Tell me about your day.'',
    partOfSpeech = ''preposition''\<rparr>,
   \<lparr>word = ''above'', level = A1,
    definition = ''in or to a higher position than something else'',
    example = ''The plane flew above the clouds.'',
    partOfSpeech = ''preposition''\<rparr>,
   \<lparr>word = ''across'', level = A1,
    definition = ''from one side to the other of something'',
    example = ''We walked across the bridge.'',
    partOfSpeech = ''preposition''\<rparr>,
   \<lparr>word = ''after'', level = A1,
    definition = ''following in time; later than'',
    example = ''We'll meet after lunch.'',
    partOfSpeech = ''preposition''\<rparr>,
   \<lparr>word = ''again'', level = A1,
    definition = ''once more; another time'',
    example = ''Please say that again.'',
    partOfSpeech = ''adverb''\<rparr>,
   \<lparr>word = ''against'', level = A1,
    definition = ''in opposition to'',
    example = ''He leaned against the wall.'',
    partOfSpeech = ''preposition''\<rparr>,
   \<lparr>word = ''all'', level = A1,
    definition = ''the whole quantity or extent of'',
    example = ''All students must attend.'',
    partOfSpeech = ''determiner''\<rparr>,
   \<lparr>word = ''almost'', level = A1,
    definition = ''not quite; very nearly'',
    example = ''I'm almost finished.'',
    partOfSpeech = ''adverb''\<rparr>,
   \<lparr>word = ''alone'', level = A1,
    definition = ''having no one else present'',
    example = ''She lives alone.'',
    partOfSpeech = ''adjective''\<rparr>,
   \<lparr>word = ''along'', level = A1,
    definition = ''in company with or at the same time as'',
    example = ''Come along with us.'',
    partOfSpeech = ''preposition''\<rparr>,
   \<lparr>word = ''already'', level = A1,
    definition = ''before or by now or the time in question'',
    example = ''I've already eaten.'',
    partOfSpeech = ''adverb''\<rparr>,
   \<lparr>word = ''also'', level = A1,
    definition = ''in addition; too'',
    example = ''She's also coming to the party.'',
    partOfSpeech = ''adverb''\<rparr>,
   \<lparr>word = ''although'', level = A1,
    definition = ''in spite of the fact that'',
    example = ''Although it was raining, we went out.'',
    partOfSpeech = ''conjunction''\<rparr>,
   \<lparr>word = ''always'', level = A1,
    definition = ''at all times; on all occasions'',
    example = ''She always arrives early.'',
    partOfSpeech = ''adverb''\<rparr>,
   \<lparr>word = ''among'', level = A1,
    definition = ''situated more or less centrally in relation to several other things'',
    example = ''He was among friends.'',
    partOfSpeech = ''preposition''\<rparr>,
   \<lparr>word = ''and'', level = A1,
    definition = ''used to connect words of the same part of speech'',
    example = ''Bread and butter.'',
    partOfSpeech = ''conjunction''\<rparr>,
   \<lparr>word = ''another'', level = A1,
    definition = ''used to refer to an additional person or thing'',
    example = ''Would you like another cup of tea?'',
    partOfSpeech = ''determiner''\<rparr>,
   \<lparr>word = ''answer'', level = A1,
    definition = ''a thing said, written, or done to deal with or as a reaction to a question'',
    example = ''What's your answer to the question?'',
    partOfSpeech = ''noun''\<rparr>,
   \<lparr>word = ''any'', level = A1,
    definition = ''used to refer to one or some of a thing'',
    example = ''Do you have any questions?'',
    partOfSpeech = ''determiner''\<rparr>,
   \<lparr>word = ''anyone'', level = A1,
    definition = ''any person or people'',
    example = ''Anyone can learn to swim.'',
    partOfSpeech = ''pronoun''\<rparr>,
   \<lparr>word = ''accept'', level = A2,
    definition = ''consent to receive or undertake something offered'',
    example = ''I accept your invitation.'',
    partOfSpeech = ''verb''\<rparr>,
   \<lparr>word = ''accident'', level = A2,
    definition = ''an unfortunate incident that happens unexpectedly'',
    example = ''There was a car accident on the highway.'',
    partOfSpeech = ''noun''\<rparr>,
   \<lparr>word = ''according'', level = A2,
    definition = ''as stated by or in'',
    example = ''According to the weather forecast, it will rain.'',
    partOfSpeech = ''preposition''\<rparr>,
   \<lparr>word = ''account'', level = A2,
    definition = ''a report or description of an event'',
    example = ''Give me an account of what happened.'',
    partOfSpeech = ''noun''\<rparr>,
   \<lparr>word = ''achieve'', level = A2,
    definition = ''successfully bring about or reach a desired objective'',
    example = ''She worked hard to achieve her goals.'',
    partOfSpeech = ''verb''\<rparr>,
   \<lparr>word = ''activity'', level = A2,
    definition = ''a thing that a person or group does or has done'',
    example = ''Swimming is my favorite activity.'',
    partOfSpeech = ''noun''\<rparr>,
   \<lparr>word = ''actually'', level = A2,
    definition = ''as the truth or facts of a situation; really'',
    example = ''I actually enjoyed the movie.'',
    partOfSpeech = ''adverb''\<rparr>,
   \<lparr>word = ''address'', level = A2,
    definition = ''the particulars of the place where someone lives'',
    example = ''What's your home address?'',
    partOfSpeech = ''noun''\<rparr>,
   \<lparr>word = ''admit'', level = A2,
    definition = ''confess to be true or to be the case'',
    example = ''I admit I was wrong.'',
    partOfSpeech = ''verb''\<rparr>,
   \<lparr>word = ''adult'', level = A2,
    definition = ''a person who is fully grown or developed'',
    example = ''Children must be accompanied by an adult.'',
    partOfSpeech = ''noun''\<rparr>,
   \<lparr>word = ''advance'', level = A2,
    definition = ''move forward in a purposeful way'',
    example = ''The army began to advance.'',
    partOfSpeech = ''verb''\<rparr>,
   \<lparr>word = ''advantage'', level = A2,
    definition = ''a condition or circumstance that puts one in a favorable position'',
    example = ''Being tall is an advantage in basketball.'',
    partOfSpeech = ''noun''\<rparr>,
   \<lparr>word = ''adventure'', level = A2,
    definition = ''an unusual and exciting experience or activity'',
    example = ''Their trip to the Amazon was quite an adventure.'',
    partOfSpeech = ''noun''\<rparr>,
   \<lparr>word = ''advertise'', level = A2,
    definition = ''describe or draw attention to a product or service'',
    example = ''They advertise their products on television.'',
    partOfSpeech = ''verb''\<rparr>,
   \<lparr>word = ''advice'', level = A2,
    definition = ''guidance or recommendations offered with regard to prudent action'',
    example = ''Can you give me some advice?'',
    partOfSpeech = ''noun''\<rparr>,
   \<lparr>word = ''affect'', level = A2,
    definition = ''have an effect on; make a difference to'',
    example = ''The rain will affect our picnic plans.'',
    partOfSpeech = ''verb''\<rparr>,
   \<lparr>word = ''afford'', level = A2,
    definition = ''have enough money to pay for'',
    example = ''I can't afford a new car right now.'',
    partOfSpeech = ''verb''\<rparr>,
   \<lparr>word = ''afraid'', level = A2,
    definition = ''feeling fear or anxiety; frightened'',
    example = ''She's afraid of spiders.'',
    partOfSpeech = ''adjective''\<rparr>,
   \<lparr>word = ''agree'', level = A2,
    definition = ''have the same opinion about something'',
    example = ''I agree with your decision.'',
    partOfSpeech = ''verb''\<rparr>,
   \<lparr>word = ''ahead'', level = A2,
    definition = ''further forward in space; in the lead'',
    example = ''Go ahead, I'll catch up later.'',
    partOfSpeech = ''adverb''\<rparr>,
   \<lparr>word = ''ability'', level = B1,
    definition = ''possession of the means or skill to do something'',
    example = ''She has the ability to solve complex problems.'',
    partOfSpeech = ''noun''\<rparr>,
   \<lparr>word = ''absolutely'', level = B1,
    definition = ''with no qualification, restriction, or limitation; totally'',
    example = ''You're absolutely right about that.'',
    partOfSpeech = ''adverb''\<rparr>,
   \<lparr>word = ''academic'', level = B1,
    definition = ''relating to education and scholarship'',
    example = ''He has strong academic credentials.'',
    partOfSpeech = ''adjective''\<rparr>,
   \<lparr>word = ''accompany'', level = B1,
    definition = ''go somewhere with someone as a companion'',
    example = ''I'll accompany you to the meeting.'',
    partOfSpeech = ''verb''\<rparr>,
   \<lparr>word = ''accurate'', level = B1,
    definition = ''correct in all details; exact'',
    example = ''Please provide accurate information.'',
    partOfSpeech = ''adjective''\<rparr>,
   \<lparr>word = ''acquire'', level = B1,
    definition = ''buy or obtain an asset or object for oneself'',
    example = ''The company plans to acquire new technology.'',
    partOfSpeech = ''verb''\<rparr>,
   \<lparr>word = ''adapt'', level = B1,
    definition = ''become adjusted to new conditions'',
    example = ''Animals must adapt to survive.'',
    partOfSpeech = ''verb''\<rparr>,
   \<lparr>word = ''adequate'', level = B1,
    definition = ''satisfactory or acceptable in quality or quantity'',
    example = ''The salary is adequate for my needs.'',
    partOfSpeech = ''adjective''\<rparr>,
   \<lparr>word = ''administration'', level = B1,
    definition = ''the process or activity of running a business or organization'',
    example = ''She works in hospital administration.'',
    partOfSpeech = ''noun''\<rparr>,
   \<lparr>word = ''adopt'', level = B1,
    definition = ''choose to take up, follow, or use'',
    example = ''The company will adopt new policies.'',
    partOfSpeech = ''verb''\<rparr>,
   \<lparr>word = ''agriculture'', level = B1,
    definition = ''the science or practice of farming'',
    example = ''Agriculture is important for food production.'',
    partOfSpeech = ''noun''\<rparr>,
   \<lparr>word = ''aircraft'', level = B1,
    definition = ''an airplane, helicopter, or other machine capable of flight'',
    example = ''The aircraft landed safely.'',
    partOfSpeech = ''noun''\<rparr>,
   \<lparr>word = ''alternative'', level = B1,
    definition = ''available as another possibility or choice'',
    example = ''We need an alternative solution.'',
    partOfSpeech = ''adjective''\<rparr>,
   \<lparr>word = ''amazing'', level = B1,
    definition = ''causing great surprise or wonder; astonishing'',
    example = ''The view from the mountain was amazing.'',
    partOfSpeech = ''adjective''\<rparr>,
   \<lparr>word = ''analysis'', level = B1,
    definition = ''detailed examination of the elements or structure of something'',
    example = ''The analysis revealed interesting patterns.'',
    partOfSpeech = ''noun''\<rparr>,
   \<lparr>word = ''ancient'', level = B1,
    definition = ''belonging to the very distant past'',
    example = ''They visited ancient ruins in Greece.'',
    partOfSpeech = ''adjective''\<rparr>,
   \<lparr>word = ''annual'', level = B1,
    definition = ''occurring once every year'',
    example = ''The company holds an annual meeting.'',
    partOfSpeech = ''adjective''\<rparr>,
   \<lparr>word = ''anxiety'', level = B1,
    definition = ''a feeling of worry, nervousness, or unease'',
    example = ''She felt anxiety before the exam.'',
    partOfSpeech = ''noun''\<rparr>,
   \<lparr>word = ''apparent'', level = B1,
    definition = ''clearly visible or understood; obvious'',
    example = ''It was apparent that he was tired.'',
    partOfSpeech = ''adjective''\<rparr>,
   \<lparr>word = ''appeal'', level = B1,
    definition = ''make a serious or urgent request'',
    example = ''They appeal for donations to help the victims.'',
    partOfSpeech = ''verb''\<rparr>,
   \<lparr>word = ''abandon'', level = B2,
    definition = ''cease to support or look after someone; desert'',
    example = ''They had to abandon their home due to flooding.'',
    partOfSpeech = ''verb''\<rparr>,
   \<lparr>word = ''abstract'', level = B2,
    definition = ''existing in thought or as an idea but not having a physical existence'',
    example = ''Love is an abstract concept.'',
    partOfSpeech = ''adjective''\<rparr>,
   \<lparr>word = ''accelerate'', level = B2,
    definition = ''begin to move more quickly'',
    example = ''The car began to accelerate down the highway.'',
    partOfSpeech = ''verb''\<rparr>,
   \<lparr>word = ''accommodate'', level = B2,
    definition = ''provide lodging or sufficient space for'',
    example = ''The hotel can accommodate 200 guests.'',
    partOfSpeech = ''verb''\<rparr>,
   \<lparr>word = ''accumulate'', level = B2,
    definition = ''gather together or acquire an increasing number or quantity of'',
    example = ''Snow began to accumulate on the ground.'',
    partOfSpeech = ''verb''\<rparr>,
   \<lparr>word = ''acknowledge'', level = B2,
    definition = ''accept or admit the existence or truth of'',
    example = ''He acknowledged his mistake.'',
    partOfSpeech = ''verb''\<rparr>,
   \<lparr>word = ''advocate'', level = B2,
    definition = ''publicly recommend or support'',
    example = ''She advocates for environmental protection.'',
    partOfSpeech = ''verb''\<rparr>,
   \<lparr>word = ''aesthetic'', level = B2,
    definition = ''concerned with beauty or the appreciation of beauty'',
    example = ''The building has great aesthetic appeal.'',
    partOfSpeech = ''adjective''\<rparr>,
   \<lparr>word = ''allocate'', level = B2,
    definition = ''distribute resources or duties for a particular purpose'',
    example = ''We need to allocate more funds to education.'',
    partOfSpeech = ''verb''\<rparr>,
   \<lparr>word = ''ambiguous'', level = B2,
    definition = ''open to more than one interpretation; not having one obvious meaning'',
    example = ''His answer was ambiguous and confusing.'',
    partOfSpeech = ''adjective''\<rparr>,
   \<lparr>word = ''anticipate'', level = B2,
    definition = ''regard as probable; expect or predict'',
    example = ''We anticipate a successful outcome.'',
    partOfSpeech = ''verb''\<rparr>,
   \<lparr>word = ''arbitrary'', level = B2,
    definition = ''based on random choice or personal whim'',
    example = ''The decision seemed arbitrary and unfair.'',
    partOfSpeech = ''adjective''\<rparr>,
   \<lparr>word = ''articulate'', level = B2,
    definition = ''having or showing the ability to speak fluently and coherently'',
    example = ''She's very articulate in her presentations.'',
    partOfSpeech = ''adjective''\<rparr>,
   \<lparr>word = ''assess'', level = B2,
    definition = ''evaluate or estimate the nature, ability, or quality of'',
    example = ''Teachers assess students' progress regularly.'',
    partOfSpeech = ''verb''\<rparr>,
   \<lparr>word = ''attribute'', level = B2,
    definition = ''regard something as being caused by'',
    example = ''She attributes her success to hard work.'',
    partOfSpeech = ''verb''\<rparr>,
   \<lparr>word = ''authentic'', level = B2,
    definition = ''of undisputed origin; genuine'',
    example = ''This is an authentic Italian restaurant.'',
    partOfSpeech = ''adjective''\<rparr>,
   \<lparr>word = ''autonomous'', level = B2,
    definition = ''having the freedom to act independently'',
    example = ''The region has autonomous status.'',
    partOfSpeech = ''adjective''\<rparr>,
   \<lparr>word = ''bias'', level = B2,
    definition = ''prejudice in favor of or against one thing'',
    example = ''The judge showed bias in his decision.'',
    partOfSpeech = ''noun''\<rparr>,
   \<lparr>word = ''coherent'', level = B2,
    definition = ''logical and consistent'',
    example = ''Please give a coherent explanation.'',
    partOfSpeech = ''adjective''\<rparr>,
   \<lparr>word = ''comprehensive'', level = B2,
    definition = ''complete and including everything that is necessary'',
    example = ''We need a comprehensive plan.'',
    partOfSpeech = ''adjective''\<rparr>]"

definition getWordsByLevel :: "Word list \<Rightarrow> level \<Rightarrow> Word list" where
  "getWordsByLevel store l = filter (\<lambda>w. level w = l) store"

text \<open>
  \<^verbatim>\<open>Math.floor(Math.random() * n)\<close>: the random number is a parameter \<open>r\<close>; the index
  drawn is \<open>r mod n\<close>, and \<open>0\<close> when \<open>n = 0\<close>. Every index below \<open>n\<close> can be drawn.
\<close>

definition randomIndex :: "nat \<Rightarrow> nat \<Rightarrow> nat" where
  "randomIndex n r = (if n = 0 then 0 else r mod n)"

text \<open>
  \<^verbatim>\<open>getRandomWord(level?)\<close> reads \<^verbatim>\<open>words[i]\<close>, which is \<^verbatim>\<open>undefined\<close> (here \<open>None\<close>)
  when the list is empty. The store, a module constant in the source, is an explicit
  argument of the functions that read it.
\<close>

definition getRandomWord :: "Word list \<Rightarrow> level option \<Rightarrow> nat \<Rightarrow> Word option" where
  "getRandomWord store l r =
     (let words = (case l of Some lv \<Rightarrow> getWordsByLevel store lv | None \<Rightarrow> store);
          i = randomIndex (length words) r
      in if i < length words then Some (words ! i) else None)"

section \<open>Game state (\<^verbatim>\<open>useGameState\<close>)\<close>

datatype SpeechMode = full | concise | disabled

text \<open>The counters are JavaScript numbers that only ever hold integers: \<^typ>\<open>int\<close>.\<close>

record GameStats =
  totalAttempted :: int
  correctAnswers :: int
  incorrectAnswers :: int
  currentStreak :: int
  bestStreak :: int

record GameState =
  currentWord :: "Word option"
  currentClue :: string
  isPlaying :: bool
  gameStats :: GameStats
  selectedLevel :: selected_level
  showAnswer :: bool
  lastAnswer :: string
  isCorrect :: "bool option"
  speechMode :: SpeechMode
  multipleChoiceOptions :: "string list"
  selectedChoice :: "string option"

definition initialStats :: GameStats where
  "initialStats = \<lparr>totalAttempted = 0, correctAnswers = 0, incorrectAnswers = 0,
     currentStreak = 0, bestStreak = 0\<rparr>"

definition initialState :: GameState where
  "initialState = \<lparr>currentWord = None, currentClue = [], isPlaying = False,
     gameStats = initialStats, selectedLevel = LevelALL, showAnswer = False, lastAnswer = [],
     isCorrect = None, speechMode = disabled, multipleChoiceOptions = [],
     selectedChoice = None\<rparr>"

text \<open>
  \<^verbatim>\<open>updateStats(isCorrect)\<close>: the state setter applied to the previous state.
\<close>

definition updateStats :: "bool \<Rightarrow> GameState \<Rightarrow> GameState" where
  "updateStats correct prev =
     (let newStats = gameStats prev;
          newStats = newStats\<lparr>totalAttempted := totalAttempted newStats + 1\<rparr>;
          newStats =
            (if correct then
               (let newStats = newStats\<lparr>correctAnswers := correctAnswers newStats + 1\<rparr>;
                    newStats = newStats\<lparr>currentStreak := currentStreak newStats + 1\<rparr>
                in newStats\<lparr>bestStreak := max (bestStreak newStats) (currentStreak newStats)\<rparr>)
             else
               (let newStats = newStats\<lparr>incorrectAnswers := incorrectAnswers newStats + 1\<rparr>
                in newStats\<lparr>currentStreak := 0\<rparr>))
      in prev\<lparr>gameStats := newStats, isCorrect := Some correct, showAnswer := True\<rparr>)"

definition resetGame :: "GameState \<Rightarrow> GameState" where
  "resetGame prev = initialState\<lparr>speechMode := speechMode prev\<rparr>"

definition nextWord :: "GameState \<Rightarrow> GameState" where
  "nextWord prev = prev\<lparr>showAnswer := False, isCorrect := None, lastAnswer := [],
     multipleChoiceOptions := [], selectedChoice := None\<rparr>"

text \<open>
  A session: the state after a sequence of graded answers, each applied by
  \<^const>\<open>updateStats\<close>, moves to the next word and resets.
\<close>

datatype session_event = Graded bool | Next | Reset

fun applyEvent :: "GameState \<Rightarrow> session_event \<Rightarrow> GameState" where
  "applyEvent g (Graded b) = updateStats b g"
| "applyEvent g Next = nextWord g"
| "applyEvent g Reset = resetGame g"

definition session :: "GameState \<Rightarrow> session_event list \<Rightarrow> GameState" where
  "session g es = foldl applyEvent g es"

text \<open>
  The invariant of the statistics: the attempts are the correct plus the incorrect
  answers, and no counter is negative.
\<close>

definition statsOk :: "GameStats \<Rightarrow> bool" where
  "statsOk s = (totalAttempted s = correctAnswers s + incorrectAnswers s \<and>
     0 \<le> totalAttempted s \<and> 0 \<le> correctAnswers s \<and> 0 \<le> incorrectAnswers s \<and>
     0 \<le> currentStreak s \<and> 0 \<le> bestStreak s)"

section \<open>Error classification (\<^verbatim>\<open>utils/apiErrorHandler.js\<close>)\<close>

datatype ErrorTypes =
  NETWORK | AUTHENTICATION | RATE_LIMIT | QUOTA_EXCEEDED | VALIDATION | SERVER | TIMEOUT | UNKNOWN

definition classifyHttpError :: "int \<Rightarrow> ErrorTypes" where
  "classifyHttpError statusCode =
     (if 400 \<le> statusCode \<and> statusCode < 500 then
        (if statusCode = 401 \<or> statusCode = 403 then AUTHENTICATION
         else if statusCode = 429 then RATE_LIMIT
         else if statusCode = 422 then VALIDATION
         else VALIDATION)
      else if 500 \<le> statusCode then SERVER
      else UNKNOWN)"

text \<open>
  The error objects read by the handlers: \<^verbatim>\<open>error.name\<close>, \<^verbatim>\<open>error.message\<close>, the optional
  \<^verbatim>\<open>error.response\<close> with its \<^verbatim>\<open>status\<close> and \<^verbatim>\<open>data\<close>, and whether \<^verbatim>\<open>error.request\<close>
  is present. Of \<^verbatim>\<open>data\<close> the handlers read \<^verbatim>\<open>data?.error?.message\<close>,
  \<^verbatim>\<open>data?.detail?.message\<close> and \<^verbatim>\<open>data?.message\<close>.
\<close>

record response_data =
  error_message :: "string option"
  detail_message :: "string option"
  data_message :: "string option"

record http_response =
  status :: int
  data :: response_data

record js_error =
  name :: string
  message :: string
  response :: "http_response option"
  request :: bool

text \<open>
  \<^verbatim>\<open>class APIError extends Error\<close>; the \<^verbatim>\<open>timestamp\<close> field (the wall clock at
  construction) is left out.
\<close>

record APIError =
  message :: string
  type :: ErrorTypes
  statusCode :: "int option"
  originalError :: js_error

definition handleOpenAIError :: "js_error \<Rightarrow> APIError" where
  "handleOpenAIError error =
     (if name error = ''AbortError'' then
        \<lparr>message = ''Request timed out. Please try again.'', type = TIMEOUT,
         statusCode = None, originalError = error\<rparr>
      else case response error of
        Some rsp \<Rightarrow>
          (let msg = orElse (error_message (data rsp)) ''OpenAI API error occurred'' in
           if status rsp = 401 then
             \<lparr>message = ''Invalid OpenAI API key. Please check your configuration.'',
              type = AUTHENTICATION, statusCode = Some (status rsp), originalError = error\<rparr>
           else if status rsp = 429 then
             \<lparr>message = ''OpenAI rate limit exceeded. Please try again later.'',
              type = RATE_LIMIT, statusCode = Some (status rsp), originalError = error\<rparr>
           else
             \<lparr>message = msg, type = classifyHttpError (status rsp),
              statusCode = Some (status rsp), originalError = error\<rparr>)
      | None \<Rightarrow>
          if request error then
            \<lparr>message = ''Network error. Please check your internet connection.'',
             type = NETWORK, statusCode = None, originalError = error\<rparr>
          else
            \<lparr>message = orElse (Some (js_error.message error)) ''An unexpected error occurred'',
             type = UNKNOWN, statusCode = None, originalError = error\<rparr>)"

definition handleElevenLabsError :: "js_error \<Rightarrow> APIError" where
  "handleElevenLabsError error =
     (if name error = ''AbortError'' then
        \<lparr>message = ''Speech synthesis timed out. Please try again.'', type = TIMEOUT,
         statusCode = None, originalError = error\<rparr>
      else case response error of
        Some rsp \<Rightarrow>
          (let msg = orElse (detail_message (data rsp))
                       (orElse (data_message (data rsp)) ''ElevenLabs API error occurred'') in
           if status rsp = 401 then
             \<lparr>message = ''Invalid ElevenLabs API key. Please check your configuration.'',
              type = AUTHENTICATION, statusCode = Some (status rsp), originalError = error\<rparr>
           else if status rsp = 429 then
             \<lparr>message = ''ElevenLabs rate limit exceeded. Please try again later.'',
              type = RATE_LIMIT, statusCode = Some (status rsp), originalError = error\<rparr>
           else if status rsp = 402 then
             \<lparr>message = ''Character quota exceeded. Please upgrade your ElevenLabs plan.'',
              type = QUOTA_EXCEEDED, statusCode = Some (status rsp), originalError = error\<rparr>
           else
             \<lparr>message = msg, type = classifyHttpError (status rsp),
              statusCode = Some (status rsp), originalError = error\<rparr>)
      | None \<Rightarrow>
          if request error then
            \<lparr>message = ''Network error. Please check your internet connection.'',
             type = NETWORK, statusCode = None, originalError = error\<rparr>
          else
            \<lparr>message = orElse (Some (js_error.message error))
               ''An unexpected error occurred during speech synthesis'',
             type = UNKNOWN, statusCode = None, originalError = error\<rparr>)"

text \<open>An error object that carries a response with the given status, and nothing else.\<close>

definition responseError :: "int \<Rightarrow> js_error" where
  "responseError s = \<lparr>name = ''Error'', message = ''Request failed'',
     response = Some \<lparr>status = s,
       data = \<lparr>error_message = None, detail_message = None, data_message = None\<rparr>\<rparr>,
     request = True\<rparr>"

section \<open>Rate limiter (\<^verbatim>\<open>class RateLimiter\<close>)\<close>

text \<open>
  The object is passed and returned; \<^verbatim>\<open>Date.now()\<close> is the argument \<open>now\<close>, in
  milliseconds.
\<close>

record RateLimiter =
  requestsPerMinute :: int
  requests :: "int list"

definition newRateLimiter :: "int \<Rightarrow> RateLimiter" where
  "newRateLimiter rpm = \<lparr>requestsPerMinute = rpm, requests = []\<rparr>"

definition canMakeRequest :: "int \<Rightarrow> RateLimiter \<Rightarrow> bool \<times> RateLimiter" where
  "canMakeRequest now this =
     (let oneMinuteAgo = now - 60000;
          this = this\<lparr>requests := filter (\<lambda>timestamp. timestamp > oneMinuteAgo) (requests this)\<rparr>
      in (int (length (requests this)) < requestsPerMinute this, this))"

definition recordRequest :: "int \<Rightarrow> RateLimiter \<Rightarrow> RateLimiter" where
  "recordRequest now this = this\<lparr>requests := requests this @ [now]\<rparr>"

text \<open>
  A JavaScript number that may be \<^verbatim>\<open>Infinity\<close>: \<^verbatim>\<open>Math.min()\<close> of no arguments.
\<close>

datatype js_number = Num int | Infinity

definition mathMin :: "int list \<Rightarrow> js_number" where
  "mathMin xs = (case xs of [] \<Rightarrow> Infinity | x # ys \<Rightarrow> Num (fold min ys x))"

text \<open>
  \<^verbatim>\<open>getTimeUntilNextRequest\<close> reads the clock twice: in \<^verbatim>\<open>canMakeRequest\<close> (\<open>now\<close>) and
  in the final subtraction (\<open>now'\<close>).
\<close>

definition getTimeUntilNextRequest :: "int \<Rightarrow> int \<Rightarrow> RateLimiter \<Rightarrow> js_number \<times> RateLimiter" where
  "getTimeUntilNextRequest now now' this =
     (case canMakeRequest now this of
        (True, this) \<Rightarrow> (Num 0, this)
      | (False, this) \<Rightarrow>
          (case mathMin (requests this) of
             Infinity \<Rightarrow> (Infinity, this)
           | Num oldestRequest \<Rightarrow> (Num (max 0 (oldestRequest + 60000 - now')), this)))"

text \<open>Recording one request at each of the given times, in order.\<close>

definition recordAll :: "int list \<Rightarrow> RateLimiter \<Rightarrow> RateLimiter" where
  "recordAll ts this = foldl (\<lambda>rl t. recordRequest t rl) this ts"

section \<open>Retry with exponential backoff (\<^verbatim>\<open>retryWithBackoff\<close>)\<close>

text \<open>
  A thrown value is an \<^verbatim>\<open>APIError\<close> or any other error object (\<^verbatim>\<open>instanceof APIError\<close>
  tells them apart).
\<close>

datatype thrown = ThrownAPIError APIError | ThrownError js_error

text \<open>
  The result of a run: what was returned or thrown (\<open>Inl None\<close>: \<^verbatim>\<open>undefined\<close> was thrown,
  when no attempt was made), how often the operation was invoked, and the delays awaited.
\<close>

record 'a retry_result =
  outcome :: "thrown option + 'a"
  invocations :: nat
  delays :: "nat list"

definition nonRetryable :: "thrown \<Rightarrow> bool" where
  "nonRetryable error =
     (case error of
        ThrownAPIError e \<Rightarrow> type e = AUTHENTICATION \<or> type e = VALIDATION
      | ThrownError _ \<Rightarrow> False)"

text \<open>
  The operation \<open>fn\<close> is given by the outcome of its \<open>k\<close>-th invocation
  (\<open>k = 1, 2, \<dots>\<close>). The loop \<^verbatim>\<open>for (attempt = 1; attempt <= maxAttempts; attempt++)\<close>:
\<close>

function retryLoop ::
  "(nat \<Rightarrow> thrown + 'a) \<Rightarrow> nat \<Rightarrow> nat \<Rightarrow> nat \<Rightarrow> nat \<Rightarrow> nat list \<Rightarrow> thrown option
     \<Rightarrow> 'a retry_result" where
  "retryLoop fn maxAttempts baseDelay attempt calls waited lastError =
     (if attempt \<le> maxAttempts then
        (case fn (calls + 1) of
           Inr v \<Rightarrow> \<lparr>outcome = Inr v, invocations = calls + 1, delays = waited\<rparr>
         | Inl error \<Rightarrow>
             if nonRetryable error then
               \<lparr>outcome = Inl (Some error), invocations = calls + 1, delays = waited\<rparr>
             else if attempt = maxAttempts then
               \<lparr>outcome = Inl (Some error), invocations = calls + 1, delays = waited\<rparr>
             else
               retryLoop fn maxAttempts baseDelay (attempt + 1) (calls + 1)
                 (waited @ [baseDelay * 2 ^ (attempt - 1)]) (Some error))
      else \<lparr>outcome = Inl lastError, invocations = calls, delays = waited\<rparr>)"
  by pat_completeness auto
termination
  by (relation "measure (\<lambda>(fn, maxAttempts, baseDelay, attempt, calls, waited, lastError).
        Suc maxAttempts - attempt)") auto

definition retryWithBackoff :: "(nat \<Rightarrow> thrown + 'a) \<Rightarrow> nat \<Rightarrow> nat \<Rightarrow> 'a retry_result" where
  "retryWithBackoff fn maxAttempts baseDelay = retryLoop fn maxAttempts baseDelay 1 0 [] None"

subsection \<open>The operation wrapped in \<^verbatim>\<open>AIService.fetchWordAndClue\<close>\<close>

text \<open>\<^verbatim>\<open>new Error(msg)\<close>: an error object without \<^verbatim>\<open>response\<close> or \<^verbatim>\<open>request\<close>.\<close>

definition newError :: "string \<Rightarrow> js_error" where
  "newError msg = \<lparr>name = ''Error'', message = msg, response = None, request = False\<rparr>"

text \<open>
  What \<^verbatim>\<open>fetch\<close> did: it rejected with an error (or reading the body did), or it
  resolved with a response of some status, status text and body.
\<close>

datatype 'a fetch_outcome = Rejected js_error | Responded int string 'a

fun showNat :: "nat \<Rightarrow> string" where
  "showNat n = (if n < 10 then [char_of (48 + n)] else showNat (n div 10) @ [char_of (48 + n mod 10)])"

definition showInt :: "int \<Rightarrow> string" where
  "showInt i = (if i < 0 then ''-'' @ showNat (nat (- i)) else showNat (nat i))"

definition openAIRequest :: "'a fetch_outcome \<Rightarrow> thrown + 'a" where
  "openAIRequest f =
     (case f of
        Rejected error \<Rightarrow> Inl (ThrownError error)
      | Responded st statusText body \<Rightarrow>
          if \<not> (200 \<le> st \<and> st \<le> 299) then
            (if st = 401 then
               Inl (ThrownError (newError
                 ''Invalid OpenAI API key. Please check your API key configuration.''))
             else if st = 429 then
               Inl (ThrownError (newError
                 ''OpenAI rate limit exceeded. Please wait a moment and try again.''))
             else if st = 402 then
               Inl (ThrownError (newError
                 ''OpenAI quota exceeded. Please check your billing and usage limits.''))
             else
               Inl (ThrownError (newError
                 (''OpenAI API error ('' @ showInt st @ ''): '' @ statusText))))
          else Inr body)"

text \<open>\<^verbatim>\<open>openAIConfig.rateLimits.retryAttempts\<close> and \<^verbatim>\<open>retryDelay\<close>.\<close>

definition retryAttempts :: nat where "retryAttempts = 3"
definition retryDelay :: nat where "retryDelay = 1000"

text \<open>
  The call \<^verbatim>\<open>retryWithBackoff(async () => { ... fetch ... }, retryAttempts, retryDelay)\<close> of
  \<^verbatim>\<open>fetchWordAndClue\<close>, where \<open>net k\<close> is what \<^verbatim>\<open>fetch\<close> does at the \<open>k\<close>-th invocation.
\<close>

definition fetchWithRetry :: "(nat \<Rightarrow> 'a fetch_outcome) \<Rightarrow> 'a retry_result" where
  "fetchWithRetry net = retryWithBackoff (\<lambda>k. openAIRequest (net k)) retryAttempts retryDelay"

section \<open>Multiple-choice options (\<^verbatim>\<open>AIService.generateMultipleChoiceOptions\<close>)\<close>

text \<open>
  The results of \<^verbatim>\<open>Math.random()\<close> consumed by a run are a list \<open>rs\<close>, read from the
  front, one element per call. The loops draw with replacement, so the number of calls
  has no bound: a run that needs more random numbers than the list holds has the value
  \<open>None\<close>.
\<close>

definition levelWords :: "Word list \<Rightarrow> selected_level \<Rightarrow> Word list" where
  "levelWords store lv =
     (case lv of LevelALL \<Rightarrow> store | Level l \<Rightarrow> filter (\<lambda>w. level w = l) store)"

definition samePartOfSpeech :: "Word list \<Rightarrow> Word \<Rightarrow> selected_level \<Rightarrow> Word list" where
  "samePartOfSpeech store correctWord lv =
     filter (\<lambda>w. partOfSpeech w = partOfSpeech correctWord \<and> word w \<noteq> word correctWord)
       (levelWords store lv)"

definition availableWords :: "Word list \<Rightarrow> Word \<Rightarrow> selected_level \<Rightarrow> Word list" where
  "availableWords store correctWord lv =
     (if length (samePartOfSpeech store correctWord lv) \<ge> 3
      then samePartOfSpeech store correctWord lv else levelWords store lv)"

text \<open>
  The first loop:
  \<^verbatim>\<open>while (incorrectOptions.length < 3 && availableWords.length > incorrectOptions.length)\<close>.
\<close>

fun pickIncorrect ::
  "Word list \<Rightarrow> string list \<Rightarrow> string set \<Rightarrow> nat list
     \<Rightarrow> (string list \<times> string set \<times> nat list) option" where
  "pickIncorrect available incorrectOptions usedWords rs =
     (if length incorrectOptions < 3 \<and> length available > length incorrectOptions then
        (case rs of
           [] \<Rightarrow> None
         | r # rs' \<Rightarrow>
             (let randomWord = available ! randomIndex (length available) r in
              if toLowerCase (word randomWord) \<notin> usedWords then
                pickIncorrect available (incorrectOptions @ [word randomWord])
                  (insert (toLowerCase (word randomWord)) usedWords) rs'
              else pickIncorrect available incorrectOptions usedWords rs'))
      else Some (incorrectOptions, usedWords, rs))"

definition fallbackOptions :: "string list" where
  "fallbackOptions =
     [''answer'', ''option'', ''choice'', ''word'', ''item'', ''thing'', ''place'', ''time'']"

text \<open>The second loop: \<^verbatim>\<open>while (incorrectOptions.length < 3)\<close>.\<close>

fun pickFallback ::
  "string list \<Rightarrow> string set \<Rightarrow> nat list \<Rightarrow> (string list \<times> string set \<times> nat list) option" where
  "pickFallback incorrectOptions usedWords rs =
     (if length incorrectOptions < 3 then
        (case rs of
           [] \<Rightarrow> None
         | r # rs' \<Rightarrow>
             (let fallback = fallbackOptions ! randomIndex (length fallbackOptions) r in
              if fallback \<notin> usedWords then
                pickFallback (incorrectOptions @ [fallback]) (insert fallback usedWords) rs'
              else pickFallback incorrectOptions usedWords rs'))
      else Some (incorrectOptions, usedWords, rs))"

text \<open>
  The value of \<^verbatim>\<open>incorrectOptions\<close> (and of \<^verbatim>\<open>usedWords\<close>) after the two loops, with the
  random numbers left over.
\<close>

definition incorrectOptionsOf ::
  "Word list \<Rightarrow> Word \<Rightarrow> selected_level \<Rightarrow> nat list
     \<Rightarrow> (string list \<times> string set \<times> nat list) option" where
  "incorrectOptionsOf store correctWord lv rs =
     (case pickIncorrect (availableWords store correctWord lv) []
             {toLowerCase (word correctWord)} rs of
        None \<Rightarrow> None
      | Some (incorrectOptions, usedWords, rs') \<Rightarrow> pickFallback incorrectOptions usedWords rs')"

text \<open>
  The Fisher-Yates shuffle \<^verbatim>\<open>for (i = allOptions.length - 1; i > 0; i--)\<close>, which swaps
  the elements at \<open>i\<close> and \<open>j = Math.floor(Math.random() * (i + 1))\<close>.
\<close>

fun fisherYates :: "nat \<Rightarrow> string list \<Rightarrow> nat list \<Rightarrow> string list option" where
  "fisherYates i allOptions rs =
     (if i > 0 then
        (case rs of
           [] \<Rightarrow> None
         | r # rs' \<Rightarrow>
             (let j = randomIndex (i + 1) r in
              fisherYates (i - 1) (allOptions[i := allOptions ! j, j := allOptions ! i]) rs'))
      else Some allOptions)"

definition generateMultipleChoiceOptions ::
  "Word list \<Rightarrow> Word \<Rightarrow> selected_level \<Rightarrow> nat list \<Rightarrow> string list option" where
  "generateMultipleChoiceOptions store correctWord lv rs =
     (case incorrectOptionsOf store correctWord lv rs of
        None \<Rightarrow> None
      | Some (incorrectOptions, usedWords, rs') \<Rightarrow>
          (let allOptions = word correctWord # take 3 incorrectOptions
           in fisherYates (length allOptions - 1) allOptions rs'))"

section \<open>Grading and starting a round (\<^verbatim>\<open>App.tsx\<close>)\<close>

text \<open>
  The comparison made by \<^verbatim>\<open>handleManualAnswer\<close>, \<^verbatim>\<open>handleMultipleChoiceAnswer\<close> and
  \<^verbatim>\<open>startListeningForAnswer\<close>:
  \<^verbatim>\<open>answer.toLowerCase().trim() === gameState.currentWord.word.toLowerCase()\<close>.
\<close>

definition gradeAnswer :: "Word \<Rightarrow> string \<Rightarrow> bool" where
  "gradeAnswer target answer = (trim (toLowerCase answer) = toLowerCase (word target))"

text \<open>
  The handlers, as functions of the game state (the application state and the spoken
  prompts are left out). A handler that returns early leaves the state as it is.
\<close>

definition handleManualAnswer :: "string \<Rightarrow> GameState \<Rightarrow> GameState" where
  "handleManualAnswer answer g =
     (case currentWord g of
        None \<Rightarrow> g
      | Some w \<Rightarrow>
          if speechMode g \<noteq> disabled then g
          else updateStats (gradeAnswer w answer)
                 (g\<lparr>lastAnswer := answer, selectedChoice := Some answer\<rparr>))"

definition handleMultipleChoiceAnswer :: "string \<Rightarrow> GameState \<Rightarrow> GameState" where
  "handleMultipleChoiceAnswer selectedOption g =
     (case currentWord g of
        None \<Rightarrow> g
      | Some w \<Rightarrow>
          updateStats (gradeAnswer w selectedOption)
            (g\<lparr>lastAnswer := selectedOption, selectedChoice := Some selectedOption\<rparr>))"

text \<open>
  \<^verbatim>\<open>startListeningForAnswer\<close> once the transcript has arrived; without a current word
  the comparison is with \<^verbatim>\<open>undefined\<close> and is false.
\<close>

definition startListeningForAnswer :: "string \<Rightarrow> GameState \<Rightarrow> GameState" where
  "startListeningForAnswer transcript g =
     (if speechMode g = disabled then g
      else updateStats (case currentWord g of None \<Rightarrow> False | Some w \<Rightarrow> gradeAnswer w transcript)
             (g\<lparr>lastAnswer := transcript, selectedChoice := Some transcript\<rparr>))"

text \<open>
  \<^verbatim>\<open>allWords.sort(() => Math.random() - 0.5)\<close>: with a comparator that answers at random
  the order of the result is left to the engine; the result holds the same elements. It
  is modelled as a rearrangement chosen by the random numbers \<open>rs\<close>: each element is
  inserted at a random position among those after it; without random numbers the order
  is kept.
\<close>

fun randomSort :: "'a list \<Rightarrow> nat list \<Rightarrow> 'a list" where
  "randomSort [] rs = []"
| "randomSort (x # xs) rs =
     (let sorted_rest = randomSort xs (tl rs);
          i = randomIndex (Suc (length xs)) (case rs of [] \<Rightarrow> 0 | r # _ \<Rightarrow> r)
      in take i sorted_rest @ x # drop i sorted_rest)"

text \<open>
  What \<^verbatim>\<open>aiService.fetchWordAndClue\<close> resolves with (\<^verbatim>\<open>WordAndClueResponse\<close>; its fields
  \<^verbatim>\<open>word\<close> and \<^verbatim>\<open>multipleChoiceOptions\<close> are \<open>response_word\<close> and \<open>response_options\<close> here).
\<close>

record WordAndClueResponse =
  response_word :: Word
  clue :: string
  difficulty :: nat
  response_options :: "string list"

text \<open>Reading a property of \<^verbatim>\<open>undefined\<close> throws a \<^verbatim>\<open>TypeError\<close>.\<close>

datatype startGame_error = TypeError

text \<open>
  The \<^verbatim>\<open>catch\<close> branch of \<^verbatim>\<open>startGame\<close>: the fallback to the vocabulary store. \<open>r\<close> is
  the random number of \<^verbatim>\<open>getRandomWord\<close>, \<open>rs\<close> those of the sort.
\<close>

definition startGameFallback ::
  "Word list \<Rightarrow> nat \<Rightarrow> nat list \<Rightarrow> GameState \<Rightarrow> startGame_error + GameState" where
  \<open>startGameFallback store r rs g =
     (case getRandomWord store
             (case selectedLevel g of LevelALL \<Rightarrow> None | Level l \<Rightarrow> Some l) r of
        None \<Rightarrow> Inl TypeError
      | Some w \<Rightarrow>
          (let fallbackClue = ''This word means "'' @ definition w @
                 ''". Complete this sentence: "'' @ replace (example w) (word w) ''____'' @ ''"'';
               allWords = [word w, ''example'', ''answer'', ''question''];
               shuffledOptions = randomSort allWords rs
           in Inr (g\<lparr>currentWord := Some w, currentClue := fallbackClue, isPlaying := True,
                     showAnswer := False, isCorrect := None, lastAnswer := [],
                     multipleChoiceOptions := shuffledOptions, selectedChoice := None\<rparr>)))\<close>

text \<open>
  \<^verbatim>\<open>startGame\<close>: \<open>primary\<close> is what the \<^verbatim>\<open>try\<close> block did, the response of
  \<^verbatim>\<open>aiService.fetchWordAndClue\<close> or the error thrown (by it, or because there is no
  service).
\<close>

definition startGame ::
  "Word list \<Rightarrow> 'e + WordAndClueResponse \<Rightarrow> nat \<Rightarrow> nat list \<Rightarrow> GameState
     \<Rightarrow> startGame_error + GameState" where
  "startGame store primary r rs g =
     (case primary of
        Inr wordAndClue \<Rightarrow>
          Inr (g\<lparr>currentWord := Some (response_word wordAndClue),
                 currentClue := clue wordAndClue, isPlaying := True, showAnswer := False,
                 isCorrect := None, lastAnswer := [],
                 multipleChoiceOptions := response_options wordAndClue,
                 selectedChoice := None\<rparr>)
      | Inl error \<Rightarrow> startGameFallback store r rs g)"

text \<open>
  The data model of a challenge, from the specification: a target, a clue, and four
  options that are pairwise distinct without regard to case and contain the target's
  word exactly once.
\<close>

definition optionsWellFormed :: "string \<Rightarrow> string list \<Rightarrow> bool" where
  "optionsWellFormed target opts =
     (length opts = 4 \<and> distinct (map toLowerCase opts) \<and> count_list opts target = 1)"

definition challengeWellFormed :: "GameState \<Rightarrow> bool" where
  "challengeWellFormed g =
     (case currentWord g of
        None \<Rightarrow> False
      | Some w \<Rightarrow> optionsWellFormed (word w) (multipleChoiceOptions g))"

text \<open>
  The invariant of the two loops: \<^verbatim>\<open>usedWords\<close> holds the correct word and the
  options chosen so far, in lower case, and the options are pairwise distinct and
  distinct from the correct word, without regard to case.
\<close>

definition optionsInvariant :: "string \<Rightarrow> string list \<Rightarrow> string set \<Rightarrow> bool" where
  "optionsInvariant correct incorrectOptions usedWords =
     (usedWords = insert (toLowerCase correct) (toLowerCase ` set incorrectOptions) \<and>
      distinct (map toLowerCase incorrectOptions) \<and>
      toLowerCase correct \<notin> toLowerCase ` set incorrectOptions)"


declare pickIncorrect.simps [simp del]
declare pickFallback.simps [simp del]
declare fisherYates.simps [simp del]
declare randomSort.simps [simp del]


section \<open>Session statistics\<close>

lemma statsOk_initial: "statsOk initialStats"
  by (simp add: statsOk_def initialStats_def)

lemma statsOk_updateStats: "statsOk (gameStats g) \<Longrightarrow> statsOk (gameStats (updateStats b g))"
  by (auto simp add: statsOk_def updateStats_def Let_def max_def)

lemma statsOk_resetGame: "statsOk (gameStats (resetGame g))"
  by (simp add: resetGame_def initialState_def statsOk_initial)

lemma gameStats_nextWord: "gameStats (nextWord g) = gameStats g"
  by (simp add: nextWord_def)

lemma statsOk_session:
  "statsOk (gameStats g) \<Longrightarrow> statsOk (gameStats (session g es))"
  unfolding session_def
proof (induction es arbitrary: g)
  case Nil
  then show ?case by simp
next
  case (Cons e es)
  have "statsOk (gameStats (applyEvent g e))"
    using Cons.prems
    by (cases e) (simp_all add: statsOk_updateStats statsOk_resetGame gameStats_nextWord)
  then show ?case using Cons.IH by simp
qed

text \<open>
  C3. In every session that starts with the initial statistics (any sequence of graded
  answers, moves to the next word and resets), after every update by the grading step
  the statistics satisfy
  \<open>totalAttempted = correctAnswers + incorrectAnswers\<close>, the best streak is the maximum of
  the previous best streak and the new current streak, the current streak is \<open>0\<close> when
  the graded answer was incorrect, and all five fields are non-negative.
\<close>

theorem updateStats_invariants:
  assumes "gameStats g0 = initialStats"
  shows "(let g = session g0 es; s = gameStats g; s' = gameStats (updateStats b g) in
     totalAttempted s' = correctAnswers s' + incorrectAnswers s' \<and>
     bestStreak s' = max (bestStreak s) (currentStreak s') \<and>
     (\<not> b \<longrightarrow> currentStreak s' = 0) \<and>
     0 \<le> totalAttempted s' \<and> 0 \<le> correctAnswers s' \<and> 0 \<le> incorrectAnswers s' \<and>
     0 \<le> currentStreak s' \<and> 0 \<le> bestStreak s')"
proof -
  have ok: "statsOk (gameStats (session g0 es))"
    using assms by (simp add: statsOk_session statsOk_initial)
  then have ok': "statsOk (gameStats (updateStats b (session g0 es)))"
    by (rule statsOk_updateStats)
  have best: "bestStreak (gameStats (updateStats b (session g0 es))) =
      max (bestStreak (gameStats (session g0 es)))
          (currentStreak (gameStats (updateStats b (session g0 es))))"
    using ok by (simp add: updateStats_def Let_def statsOk_def)
  have zero: "\<not> b \<longrightarrow> currentStreak (gameStats (updateStats b (session g0 es))) = 0"
    by (simp add: updateStats_def Let_def)
  show ?thesis
    using ok' best zero by (simp add: Let_def statsOk_def)
qed

theorem updateStats_invariants_witness:
  "gameStats initialState = initialStats \<and>
   gameStats (session initialState [Graded True, Graded True, Graded False]) =
     \<lparr>totalAttempted = 3, correctAnswers = 2, incorrectAnswers = 1,
      currentStreak = 0, bestStreak = 2\<rparr> \<and>
   gameStats (updateStats False (session initialState [Graded True, Graded True])) =
     \<lparr>totalAttempted = 3, correctAnswers = 2, incorrectAnswers = 1,
      currentStreak = 0, bestStreak = 2\<rparr> \<and>
   bestStreak (gameStats (updateStats False (session initialState [Graded True, Graded True])))
     = max (bestStreak (gameStats (session initialState [Graded True, Graded True]))) 0"
proof -
  have start: "gameStats initialState = initialStats"
    by (simp add: initialState_def)
  have run: "gameStats (session initialState [Graded True, Graded True]) =
     \<lparr>totalAttempted = 2, correctAnswers = 2, incorrectAnswers = 0,
      currentStreak = 2, bestStreak = 2\<rparr>"
    by (simp add: session_def updateStats_def initialState_def initialStats_def Let_def)
  have upd: "gameStats (updateStats False (session initialState [Graded True, Graded True])) =
     \<lparr>totalAttempted = 3, correctAnswers = 2, incorrectAnswers = 1,
      currentStreak = 0, bestStreak = 2\<rparr>"
    by (simp add: session_def updateStats_def initialState_def initialStats_def Let_def)
  have all3: "gameStats (session initialState [Graded True, Graded True, Graded False]) =
     \<lparr>totalAttempted = 3, correctAnswers = 2, incorrectAnswers = 1,
      currentStreak = 0, bestStreak = 2\<rparr>"
    by (simp add: session_def updateStats_def initialState_def initialStats_def Let_def)
  from updateStats_invariants [OF start, of "[Graded True, Graded True]" False]
  have "bestStreak (gameStats (updateStats False (session initialState [Graded True, Graded True])))
     = max (bestStreak (gameStats (session initialState [Graded True, Graded True])))
         (currentStreak (gameStats (updateStats False (session initialState [Graded True, Graded True]))))"
    by (simp add: Let_def)
  then show ?thesis using start upd all3 by simp
qed

section \<open>Session reset\<close>

text \<open>
  C10. For every game state, \<^verbatim>\<open>resetGame\<close> returns every field to its initial value
  (zeroed statistics, no current word, empty clue, no options, answer flags cleared,
  level selection \<^verbatim>\<open>ALL\<close>) except the speech mode, which keeps its value.
\<close>

theorem resetGame_initial_except_speechMode:
  "resetGame g = initialState\<lparr>speechMode := speechMode g\<rparr> \<and>
   speechMode (resetGame g) = speechMode g \<and>
   currentWord (resetGame g) = None \<and>
   currentClue (resetGame g) = [] \<and>
   isPlaying (resetGame g) = False \<and>
   gameStats (resetGame g) = \<lparr>totalAttempted = 0, correctAnswers = 0, incorrectAnswers = 0,
     currentStreak = 0, bestStreak = 0\<rparr> \<and>
   selectedLevel (resetGame g) = LevelALL \<and>
   showAnswer (resetGame g) = False \<and>
   lastAnswer (resetGame g) = [] \<and>
   isCorrect (resetGame g) = None \<and>
   multipleChoiceOptions (resetGame g) = [] \<and>
   selectedChoice (resetGame g) = None"
  by (simp add: resetGame_def initialState_def initialStats_def)


section \<open>Error classification\<close>

lemma classifyHttpError_cases:
  "classifyHttpError s =
     (if s = 401 \<or> s = 403 then AUTHENTICATION
      else if s = 429 then RATE_LIMIT
      else if 400 \<le> s \<and> s < 500 then VALIDATION
      else if 500 \<le> s then SERVER
      else UNKNOWN)"
  by (simp add: classifyHttpError_def)

lemma handleOpenAIError_status:
  assumes "name e \<noteq> ''AbortError''" and "response e = Some rsp"
  shows "type (handleOpenAIError e) = classifyHttpError (status rsp)"
  using assms by (simp add: handleOpenAIError_def Let_def classifyHttpError_def)

lemma handleElevenLabsError_status:
  assumes "name e \<noteq> ''AbortError''" and "response e = Some rsp"
  shows "type (handleElevenLabsError e) =
     (if status rsp = 402 then QUOTA_EXCEEDED else classifyHttpError (status rsp))"
  using assms by (simp add: handleElevenLabsError_def Let_def classifyHttpError_def)


text \<open>
  The classes that the two handlers assign, case by case. They agree everywhere except
  at status 402: a client-side abort is \<open>TIMEOUT\<close>; otherwise, for an error with a
  response, status 401 and 403 are \<open>AUTHENTICATION\<close>, 429 is \<open>RATE_LIMIT\<close>, 422 and every
  other 4xx are \<open>VALIDATION\<close>, every status from 500 on is \<open>SERVER\<close> and a status below
  400 is \<open>UNKNOWN\<close>; an error without \<^verbatim>\<open>response\<close> but with \<^verbatim>\<open>request\<close> is \<open>NETWORK\<close>, and
  everything else is \<open>UNKNOWN\<close>.
\<close>

lemma error_classification:
  "(name e = ''AbortError'' \<longrightarrow>
      type (handleOpenAIError e) = TIMEOUT \<and> type (handleElevenLabsError e) = TIMEOUT) \<and>
   (name e \<noteq> ''AbortError'' \<and> response e = Some rsp \<longrightarrow>
      (status rsp = 401 \<or> status rsp = 403 \<longrightarrow>
         type (handleOpenAIError e) = AUTHENTICATION \<and>
         type (handleElevenLabsError e) = AUTHENTICATION) \<and>
      (status rsp = 429 \<longrightarrow>
         type (handleOpenAIError e) = RATE_LIMIT \<and>
         type (handleElevenLabsError e) = RATE_LIMIT) \<and>
      (status rsp = 402 \<longrightarrow>
         type (handleOpenAIError e) = VALIDATION \<and>
         type (handleElevenLabsError e) = QUOTA_EXCEEDED) \<and>
      (400 \<le> status rsp \<and> status rsp < 500 \<and>
       status rsp \<notin> {401, 402, 403, 429} \<longrightarrow>
         type (handleOpenAIError e) = VALIDATION \<and>
         type (handleElevenLabsError e) = VALIDATION) \<and>
      (500 \<le> status rsp \<longrightarrow>
         type (handleOpenAIError e) = SERVER \<and> type (handleElevenLabsError e) = SERVER) \<and>
      (status rsp < 400 \<longrightarrow>
         type (handleOpenAIError e) = UNKNOWN \<and> type (handleElevenLabsError e) = UNKNOWN)) \<and>
   (name e \<noteq> ''AbortError'' \<and> response e = None \<and> request e \<longrightarrow>
      type (handleOpenAIError e) = NETWORK \<and> type (handleElevenLabsError e) = NETWORK) \<and>
   (name e \<noteq> ''AbortError'' \<and> response e = None \<and> \<not> request e \<longrightarrow>
      type (handleOpenAIError e) = UNKNOWN \<and> type (handleElevenLabsError e) = UNKNOWN)"
proof -
  have abort: "name e = ''AbortError'' \<longrightarrow>
      type (handleOpenAIError e) = TIMEOUT \<and> type (handleElevenLabsError e) = TIMEOUT"
    by (simp add: handleOpenAIError_def handleElevenLabsError_def)
  have resp: "name e \<noteq> ''AbortError'' \<and> response e = Some rsp \<longrightarrow>
      type (handleOpenAIError e) = classifyHttpError (status rsp) \<and>
      type (handleElevenLabsError e) =
        (if status rsp = 402 then QUOTA_EXCEEDED else classifyHttpError (status rsp))"
    using handleOpenAIError_status handleElevenLabsError_status by blast
  have none: "name e \<noteq> ''AbortError'' \<and> response e = None \<longrightarrow>
      type (handleOpenAIError e) = (if request e then NETWORK else UNKNOWN) \<and>
      type (handleElevenLabsError e) = (if request e then NETWORK else UNKNOWN)"
    by (simp add: handleOpenAIError_def handleElevenLabsError_def)
  show ?thesis
    using abort resp none by (auto simp add: classifyHttpError_cases)
qed

lemma error_classification_examples:
  "type (handleOpenAIError (newError ''x''\<lparr>name := ''AbortError''\<rparr>)) = TIMEOUT \<and>
   type (handleElevenLabsError (newError ''x''\<lparr>name := ''AbortError''\<rparr>)) = TIMEOUT \<and>
   type (handleOpenAIError (responseError 403)) = AUTHENTICATION \<and>
   type (handleElevenLabsError (responseError 401)) = AUTHENTICATION \<and>
   type (handleOpenAIError (responseError 429)) = RATE_LIMIT \<and>
   type (handleElevenLabsError (responseError 429)) = RATE_LIMIT \<and>
   type (handleOpenAIError (responseError 402)) = VALIDATION \<and>
   type (handleElevenLabsError (responseError 402)) = QUOTA_EXCEEDED \<and>
   type (handleOpenAIError (responseError 422)) = VALIDATION \<and>
   type (handleElevenLabsError (responseError 404)) = VALIDATION \<and>
   type (handleOpenAIError (responseError 503)) = SERVER \<and>
   type (handleElevenLabsError (responseError 500)) = SERVER \<and>
   type (handleOpenAIError (responseError 302)) = UNKNOWN \<and>
   type (handleElevenLabsError (responseError 302)) = UNKNOWN \<and>
   type (handleOpenAIError (newError ''x''\<lparr>request := True\<rparr>)) = NETWORK \<and>
   type (handleElevenLabsError (newError ''x''\<lparr>request := True\<rparr>)) = NETWORK \<and>
   type (handleOpenAIError (newError ''x'')) = UNKNOWN \<and>
   type (handleElevenLabsError (newError ''x'')) = UNKNOWN"
proof -
  let ?r = "\<lambda>s. \<lparr>status = s,
       data = \<lparr>error_message = None, detail_message = None, data_message = None\<rparr>\<rparr>"
  have r: "\<And>s. name (responseError s) \<noteq> ''AbortError'' \<and>
      response (responseError s) = Some (?r s)"
    by (simp add: responseError_def)
  have n: "name (newError ''x'') \<noteq> ''AbortError'' \<and> response (newError ''x'') = None \<and>
      \<not> request (newError ''x'')"
    by (simp add: newError_def)
  have q: "name (newError ''x''\<lparr>request := True\<rparr>) \<noteq> ''AbortError'' \<and>
      response (newError ''x''\<lparr>request := True\<rparr>) = None \<and>
      request (newError ''x''\<lparr>request := True\<rparr>)"
    by (simp add: newError_def)
  have a: "name (newError ''x''\<lparr>name := ''AbortError''\<rparr>) = ''AbortError''"
    by simp
  show ?thesis
    using error_classification [of "newError ''x''\<lparr>name := ''AbortError''\<rparr>" "?r 0"] a
      error_classification [of "responseError 403" "?r 403"] r [of 403]
      error_classification [of "responseError 401" "?r 401"] r [of 401]
      error_classification [of "responseError 429" "?r 429"] r [of 429]
      error_classification [of "responseError 402" "?r 402"] r [of 402]
      error_classification [of "responseError 422" "?r 422"] r [of 422]
      error_classification [of "responseError 404" "?r 404"] r [of 404]
      error_classification [of "responseError 503" "?r 503"] r [of 503]
      error_classification [of "responseError 500" "?r 500"] r [of 500]
      error_classification [of "responseError 302" "?r 302"] r [of 302]
      error_classification [of "newError ''x''\<lparr>request := True\<rparr>" "?r 0"] q
      error_classification [of "newError ''x''" "?r 0"] n
    by simp
qed


section \<open>Rate limiter\<close>

lemma requests_recordAll: "requests (recordAll ts rl) = requests rl @ ts"
  unfolding recordAll_def
  by (induction ts arbitrary: rl) (simp_all add: recordRequest_def)

lemma requestsPerMinute_recordAll: "requestsPerMinute (recordAll ts rl) = requestsPerMinute rl"
  unfolding recordAll_def
  by (induction ts arbitrary: rl) (simp_all add: recordRequest_def)

lemma fst_canMakeRequest:
  "fst (canMakeRequest now rl) =
     (int (length (filter (\<lambda>t. now - 60000 < t) (requests rl))) < requestsPerMinute rl)"
  by (simp add: canMakeRequest_def Let_def)

lemma snd_canMakeRequest:
  "snd (canMakeRequest now rl) = rl\<lparr>requests := filter (\<lambda>t. now - 60000 < t) (requests rl)\<rparr>"
  by (simp add: canMakeRequest_def Let_def)

lemma mathMin_nonempty: "xs \<noteq> [] \<Longrightarrow> mathMin xs = Num (Min (set xs))"
  by (cases xs) (simp_all add: mathMin_def Min.set_eq_fold [symmetric])

lemma getTimeUntilNextRequest_cases:
  "getTimeUntilNextRequest now now' rl =
     (if fst (canMakeRequest now rl) then (Num 0, snd (canMakeRequest now rl))
      else (case mathMin (requests (snd (canMakeRequest now rl))) of
              Infinity \<Rightarrow> (Infinity, snd (canMakeRequest now rl))
            | Num oldestRequest \<Rightarrow>
                (Num (max 0 (oldestRequest + 60000 - now')), snd (canMakeRequest now rl))))"
  by (cases "canMakeRequest now rl")
    (auto simp add: getTimeUntilNextRequest_def split: js_number.split)

text \<open>
  C8, as stated, fails: \<^verbatim>\<open>recordRequest\<close> records unconditionally, so more requests than
  the ceiling can be in the window. With 61 requests recorded and a ceiling of 60, after
  the oldest timestamp has aged out 60 timestamps are still in the window and
  \<^verbatim>\<open>canMakeRequest\<close> is still false.
\<close>

theorem canMakeRequest_still_false_after_oldest_expired:
  "Min (set (0 # replicate 60 1000)) + 60000 < (60001 :: int) \<and>
   \<not> fst (canMakeRequest 60001 (recordAll (0 # replicate 60 1000) (newRateLimiter 60)))"
  by (simp add: fst_canMakeRequest requests_recordAll requestsPerMinute_recordAll
      newRateLimiter_def)

text \<open>
  C8, amended. After recording exactly \<open>N\<close> requests, all within the 60-second window,
  \<^verbatim>\<open>canMakeRequest\<close> is false when \<open>N\<close> is at least the ceiling and true otherwise. Once the
  current time has reached the oldest timestamp plus 60 seconds, \<^verbatim>\<open>canMakeRequest\<close> is
  true again provided that no more than the ceiling were recorded.
  \<^verbatim>\<open>getTimeUntilNextRequest\<close> returns \<open>0\<close> whenever admission is possible, and otherwise
  the time until the oldest timestamp in the window ages out, never below \<open>0\<close>; read at
  the same instant, that time is positive. With a positive ceiling, a refused admission
  always has a timestamp in the window.
\<close>

theorem rateLimiter_admission:
  "((\<forall>t \<in> set ts. now - 60000 < t) \<longrightarrow>
      fst (canMakeRequest now (recordAll ts (newRateLimiter c))) = (int (length ts) < c)) \<and>
   (ts \<noteq> [] \<and> int (length ts) \<le> c \<and> Min (set ts) + 60000 \<le> now \<longrightarrow>
      fst (canMakeRequest now (recordAll ts (newRateLimiter c)))) \<and>
   (fst (canMakeRequest now rl) \<longrightarrow> fst (getTimeUntilNextRequest now now' rl) = Num 0) \<and>
   (\<not> fst (canMakeRequest now rl) \<and> filter (\<lambda>t. now - 60000 < t) (requests rl) \<noteq> [] \<longrightarrow>
      fst (getTimeUntilNextRequest now now' rl) =
        Num (max 0 (Min (set (filter (\<lambda>t. now - 60000 < t) (requests rl))) + 60000 - now')) \<and>
      fst (getTimeUntilNextRequest now now rl) =
        Num (Min (set (filter (\<lambda>t. now - 60000 < t) (requests rl))) + 60000 - now) \<and>
      0 < Min (set (filter (\<lambda>t. now - 60000 < t) (requests rl))) + 60000 - now) \<and>
   (\<not> fst (canMakeRequest now rl) \<and> 0 < requestsPerMinute rl \<longrightarrow>
      filter (\<lambda>t. now - 60000 < t) (requests rl) \<noteq> [])"
proof -
  let ?w = "filter (\<lambda>t. now - 60000 < t) (requests rl)"
  have p1: "(\<forall>t \<in> set ts. now - 60000 < t) \<longrightarrow>
      fst (canMakeRequest now (recordAll ts (newRateLimiter c))) = (int (length ts) < c)"
    by (simp add: fst_canMakeRequest requests_recordAll requestsPerMinute_recordAll
        newRateLimiter_def)
  have p2: "ts \<noteq> [] \<and> int (length ts) \<le> c \<and> Min (set ts) + 60000 \<le> now \<longrightarrow>
      fst (canMakeRequest now (recordAll ts (newRateLimiter c)))"
  proof (intro impI, elim conjE)
    assume ne: "ts \<noteq> []" and le: "int (length ts) \<le> c" and old: "Min (set ts) + 60000 \<le> now"
    have "Min (set ts) \<in> set ts" using ne by simp
    moreover have "\<not> now - 60000 < Min (set ts)" using old by simp
    ultimately have "length (filter (\<lambda>t. now - 60000 < t) ts) < length ts"
      by (rule length_filter_less)
    then show "fst (canMakeRequest now (recordAll ts (newRateLimiter c)))"
      using le
      by (simp add: fst_canMakeRequest requests_recordAll requestsPerMinute_recordAll
          newRateLimiter_def)
  qed
  have p3: "fst (canMakeRequest now rl) \<longrightarrow> fst (getTimeUntilNextRequest now now' rl) = Num 0"
    by (simp add: getTimeUntilNextRequest_cases)
  have p4: "\<not> fst (canMakeRequest now rl) \<and> ?w \<noteq> [] \<longrightarrow>
      fst (getTimeUntilNextRequest now now' rl) = Num (max 0 (Min (set ?w) + 60000 - now')) \<and>
      fst (getTimeUntilNextRequest now now rl) = Num (Min (set ?w) + 60000 - now) \<and>
      0 < Min (set ?w) + 60000 - now"
  proof (intro impI, elim conjE)
    assume no: "\<not> fst (canMakeRequest now rl)" and ne: "?w \<noteq> []"
    have "Min (set ?w) \<in> set ?w" using ne by (simp del: set_filter)
    then have pos: "0 < Min (set ?w) + 60000 - now" by simp
    have "\<And>n. fst (getTimeUntilNextRequest now n rl) = Num (max 0 (Min (set ?w) + 60000 - n))"
      using no ne
      by (simp add: getTimeUntilNextRequest_cases snd_canMakeRequest mathMin_nonempty
          del: set_filter)
    then show "fst (getTimeUntilNextRequest now now' rl) =
        Num (max 0 (Min (set ?w) + 60000 - now')) \<and>
      fst (getTimeUntilNextRequest now now rl) = Num (Min (set ?w) + 60000 - now) \<and>
      0 < Min (set ?w) + 60000 - now"
      using pos by (simp del: set_filter)
  qed
  have p5: "\<not> fst (canMakeRequest now rl) \<and> 0 < requestsPerMinute rl \<longrightarrow> ?w \<noteq> []"
    by (auto simp add: fst_canMakeRequest)
  show ?thesis using p1 p2 p3 p4 p5 by blast
qed

theorem rateLimiter_admission_witness:
  "3000 - 60000 < (1000 :: int) \<and> 3000 - 60000 < (2000 :: int) \<and>
   \<not> fst (canMakeRequest 3000 (recordAll [1000, 2000] (newRateLimiter 2))) \<and>
   fst (canMakeRequest 3000 (recordAll [1000, 2000] (newRateLimiter 3))) \<and>
   Min (set [1000, 2000 :: int]) + 60000 \<le> 61000 \<and>
   fst (canMakeRequest 61000 (recordAll [1000, 2000] (newRateLimiter 2))) \<and>
   fst (getTimeUntilNextRequest 3000 3000 (recordAll [1000, 2000] (newRateLimiter 3))) = Num 0 \<and>
   fst (getTimeUntilNextRequest 3000 3005 (recordAll [1000, 2000] (newRateLimiter 2)))
     = Num 57995 \<and>
   fst (getTimeUntilNextRequest 3000 3000 (recordAll [1000, 2000] (newRateLimiter 2)))
     = Num 58000"
proof -
  let ?two = "recordAll [1000, 2000] (newRateLimiter 2)"
  let ?three = "recordAll [1000, 2000] (newRateLimiter 3)"
  have inw: "\<forall>t \<in> set [1000, 2000 :: int]. 3000 - 60000 < t" by simp
  have old: "[1000, 2000 :: int] \<noteq> [] \<and> int (length [1000, 2000 :: int]) \<le> 2 \<and>
      Min (set [1000, 2000 :: int]) + 60000 \<le> 61000" by simp
  have w: "filter (\<lambda>t. 3000 - 60000 < t) (requests ?two) = [1000, 2000]"
    by (simp add: requests_recordAll newRateLimiter_def)
  have a2: "\<not> fst (canMakeRequest 3000 ?two)"
    using rateLimiter_admission [of "[1000, 2000]" 3000 2] inw by simp
  have a3: "fst (canMakeRequest 3000 ?three)"
    using rateLimiter_admission [of "[1000, 2000]" 3000 3] inw by simp
  have b: "fst (canMakeRequest 61000 ?two)"
    using rateLimiter_admission [of "[1000, 2000]" 61000 2] old by blast
  have c: "fst (getTimeUntilNextRequest 3000 3000 ?three) = Num 0"
    using rateLimiter_admission [of "[1000, 2000]" 3000 3 ?three 3000] a3 by blast
  have d: "fst (getTimeUntilNextRequest 3000 3005 ?two) = Num 57995 \<and>
      fst (getTimeUntilNextRequest 3000 3000 ?two) = Num 58000"
    using rateLimiter_admission [of "[1000, 2000]" 3000 2 ?two 3005] a2
    unfolding w by simp
  show ?thesis using a2 a3 old b c d by simp
qed

text \<open>
  C9, as stated, fails: \<^verbatim>\<open>canMakeRequest\<close> assigns the filtered list to
  \<^verbatim>\<open>this.requests\<close>, so a timestamp older than a minute is removed by the call.
\<close>

theorem canMakeRequest_removes_expired:
  "requests (recordAll [0] (newRateLimiter 60)) = [0] \<and>
   requests (snd (canMakeRequest 60000 (recordAll [0] (newRateLimiter 60)))) = []"
  by (simp add: snd_canMakeRequest requests_recordAll newRateLimiter_def)

text \<open>
  C9, amended. \<^verbatim>\<open>canMakeRequest\<close> changes the stored timestamps only by dropping those
  that have left the 60-second window: it keeps the timestamps of the window, in order,
  adds none and keeps the ceiling, so it leaves the object unchanged when no stored
  timestamp has expired, and no later \<^verbatim>\<open>canMakeRequest\<close> can tell whether it was called.
  \<^verbatim>\<open>getTimeUntilNextRequest\<close> changes the object as \<^verbatim>\<open>canMakeRequest\<close> does, and
  \<^verbatim>\<open>recordRequest\<close> is the only operation that adds a timestamp.
\<close>

theorem canMakeRequest_only_prunes:
  "requests (snd (canMakeRequest now rl)) = filter (\<lambda>t. now - 60000 < t) (requests rl) \<and>
   requestsPerMinute (snd (canMakeRequest now rl)) = requestsPerMinute rl \<and>
   ((\<forall>t \<in> set (requests rl). now - 60000 < t) \<longrightarrow> snd (canMakeRequest now rl) = rl) \<and>
   (now \<le> later \<longrightarrow>
      canMakeRequest later (snd (canMakeRequest now rl)) = canMakeRequest later rl) \<and>
   snd (getTimeUntilNextRequest now now' rl) = snd (canMakeRequest now rl) \<and>
   requests (recordRequest now rl) = requests rl @ [now] \<and>
   requestsPerMinute (recordRequest now rl) = requestsPerMinute rl"
proof -
  have keep: "(\<forall>t \<in> set (requests rl). now - 60000 < t) \<longrightarrow> snd (canMakeRequest now rl) = rl"
    by (simp add: snd_canMakeRequest)
  have again: "now \<le> later \<longrightarrow>
      canMakeRequest later (snd (canMakeRequest now rl)) = canMakeRequest later rl"
  proof
    assume le: "now \<le> later"
    have "filter (\<lambda>t. later - 60000 < t) (filter (\<lambda>t. now - 60000 < t) (requests rl)) =
        filter (\<lambda>t. later - 60000 < t) (requests rl)"
      using le by (auto intro: filter_cong)
    then show "canMakeRequest later (snd (canMakeRequest now rl)) = canMakeRequest later rl"
      by (simp add: canMakeRequest_def Let_def)
  qed
  have until: "snd (getTimeUntilNextRequest now now' rl) = snd (canMakeRequest now rl)"
    by (simp add: getTimeUntilNextRequest_cases split: js_number.split)
  show ?thesis
    using keep again until by (simp add: snd_canMakeRequest recordRequest_def)
qed

theorem canMakeRequest_only_prunes_witness:
  "requests (recordAll [1000, 2000] (newRateLimiter 2)) = [1000, 2000] \<and>
   3000 - 60000 < (1000 :: int) \<and> 3000 - 60000 < (2000 :: int) \<and>
   snd (canMakeRequest 3000 (recordAll [1000, 2000] (newRateLimiter 2)))
     = recordAll [1000, 2000] (newRateLimiter 2) \<and>
   (61500 :: int) \<le> 62500 \<and>
   canMakeRequest 62500 (snd (canMakeRequest 61500 (recordAll [1000, 2000] (newRateLimiter 2))))
     = canMakeRequest 62500 (recordAll [1000, 2000] (newRateLimiter 2)) \<and>
   requests (snd (canMakeRequest 61500 (recordAll [1000, 2000] (newRateLimiter 2)))) = [2000]"
proof -
  let ?rl = "recordAll [1000, 2000] (newRateLimiter 2)"
  have inw: "\<forall>t \<in> set (requests ?rl). 3000 - 60000 < t"
    by (simp add: requests_recordAll newRateLimiter_def)
  have le: "(61500 :: int) \<le> 62500" by simp
  have f: "filter (\<lambda>t. 61500 - 60000 < t) (requests ?rl) = [2000]"
    by (simp add: requests_recordAll newRateLimiter_def)
  have rq: "requests ?rl = [1000, 2000]"
    by (simp add: requests_recordAll newRateLimiter_def)
  have same: "snd (canMakeRequest 3000 ?rl) = ?rl"
    using canMakeRequest_only_prunes [of 3000 ?rl 3000 3000] inw by blast
  have later: "canMakeRequest 62500 (snd (canMakeRequest 61500 ?rl)) = canMakeRequest 62500 ?rl"
    using canMakeRequest_only_prunes [of 61500 ?rl 62500 61500] le by blast
  have pruned: "requests (snd (canMakeRequest 61500 ?rl)) = [2000]"
    using canMakeRequest_only_prunes [of 61500 ?rl 62500 61500] f by simp
  show ?thesis
    using rq same later pruned by simp
qed


section \<open>Retry policy\<close>

text \<open>
  An operation whose first failure is an \<^verbatim>\<open>APIError\<close> of type \<open>AUTHENTICATION\<close> or
  \<open>VALIDATION\<close> is invoked once, and that error is thrown without any delay.
\<close>

lemma retryWithBackoff_nonRetryable_once:
  assumes "fn 1 = Inl (ThrownAPIError e)"
    and "type e = AUTHENTICATION \<or> type e = VALIDATION"
    and "1 \<le> maxAttempts"
  shows "retryWithBackoff fn maxAttempts baseDelay =
     \<lparr>outcome = Inl (Some (ThrownAPIError e)), invocations = 1, delays = []\<rparr>"
proof -
  have "nonRetryable (ThrownAPIError e)"
    using assms(2) by (simp add: nonRetryable_def)
  then show ?thesis
    unfolding retryWithBackoff_def
    using assms(1,3) by (subst retryLoop.simps) simp
qed

text \<open>
  An operation that keeps failing with errors that are not non-retryable is invoked once
  per attempt.
\<close>

lemma retryLoop_exhausts:
  "\<forall>k. \<exists>e. fn k = Inl e \<and> \<not> nonRetryable e \<Longrightarrow> attempt \<le> Suc maxAttempts \<Longrightarrow>
   invocations (retryLoop fn maxAttempts baseDelay attempt calls waited lastError) =
     calls + (Suc maxAttempts - attempt)"
proof (induction fn maxAttempts baseDelay attempt calls waited lastError
    rule: retryLoop.induct)
  case (1 fn maxAttempts baseDelay attempt calls waited lastError)
  obtain e where e: "fn (calls + 1) = Inl e" "\<not> nonRetryable e"
    using "1.prems"(1) by blast
  show ?case
  proof (cases "attempt \<le> maxAttempts")
    case False
    then show ?thesis
      using "1.prems"(2) by (subst retryLoop.simps) simp
  next
    case le: True
    show ?thesis
    proof (cases "attempt = maxAttempts")
      case True
      then show ?thesis
        using e by (subst retryLoop.simps) simp
    next
      case False
      then have "invocations (retryLoop fn maxAttempts baseDelay (attempt + 1) (calls + 1)
          (waited @ [baseDelay * 2 ^ (attempt - 1)]) (Some e)) =
          (calls + 1) + (Suc maxAttempts - (attempt + 1))"
        using "1.IH" [of e] le e "1.prems"(1) by simp
      then show ?thesis
        using le False e by (subst retryLoop.simps) simp
    qed
  qed
qed

lemma retryWithBackoff_exhausts:
  assumes "\<forall>k. \<exists>e. fn k = Inl e \<and> \<not> nonRetryable e"
  shows "invocations (retryWithBackoff fn maxAttempts baseDelay) = maxAttempts"
  unfolding retryWithBackoff_def
  using retryLoop_exhausts [OF assms, where attempt = 1 and maxAttempts = maxAttempts]
  by simp

lemma openAIRequest_never_nonRetryable:
  "openAIRequest f = Inl e \<Longrightarrow> \<not> nonRetryable e"
  by (cases f) (auto simp add: openAIRequest_def nonRetryable_def split: if_splits)

text \<open>
  C6 on the provider path. The operation that \<^verbatim>\<open>fetchWordAndClue\<close> wraps throws a
  plain \<^verbatim>\<open>Error\<close> when the response has status 401, not an \<^verbatim>\<open>APIError\<close>: when every
  response is a 401, the operation is invoked three times, after delays of 1000 and
  2000 milliseconds, before the error is thrown; classified afterwards by
  \<^verbatim>\<open>handleOpenAIError\<close>, the error is \<open>UNKNOWN\<close>.
\<close>

theorem fetchWithRetry_retries_401:
  "fetchWithRetry (\<lambda>k. Responded 401 ''Unauthorized'' body) =
     \<lparr>outcome = Inl (Some (ThrownError (newError
        ''Invalid OpenAI API key. Please check your API key configuration.''))),
      invocations = 3, delays = [1000, 2000]\<rparr> \<and>
   type (handleOpenAIError (newError
     ''Invalid OpenAI API key. Please check your API key configuration.'')) = UNKNOWN"
proof -
  have op: "openAIRequest (Responded 401 ''Unauthorized'' body) =
      Inl (ThrownError (newError
        ''Invalid OpenAI API key. Please check your API key configuration.''))"
    by (simp add: openAIRequest_def)
  have nr: "\<not> nonRetryable (ThrownError (newError
        ''Invalid OpenAI API key. Please check your API key configuration.''))"
    by (simp add: nonRetryable_def)
  have run: "fetchWithRetry (\<lambda>k. Responded 401 ''Unauthorized'' body) =
     \<lparr>outcome = Inl (Some (ThrownError (newError
        ''Invalid OpenAI API key. Please check your API key configuration.''))),
      invocations = 3, delays = [1000, 2000]\<rparr>"
    unfolding fetchWithRetry_def retryWithBackoff_def retryAttempts_def retryDelay_def op
    using nr by simp
  have cls: "type (handleOpenAIError (newError
     ''Invalid OpenAI API key. Please check your API key configuration.'')) = UNKNOWN"
    by (simp add: handleOpenAIError_def newError_def)
  show ?thesis using run cls by simp
qed


section \<open>Grading\<close>

lemma isWhiteSpace_toLowerChar: "isWhiteSpace (toLowerChar c) = isWhiteSpace c"
  by (auto simp add: isWhiteSpace_def toLowerChar_def Let_def)

lemma dropWhile_toLowerCase:
  "dropWhile isWhiteSpace (toLowerCase s) = toLowerCase (dropWhile isWhiteSpace s)"
  by (simp add: toLowerCase_def dropWhile_map comp_def isWhiteSpace_toLowerChar)

lemma rev_toLowerCase: "rev (toLowerCase s) = toLowerCase (rev s)"
  by (simp add: toLowerCase_def rev_map)

text \<open>Lowercasing and trimming commute.\<close>

lemma trim_toLowerCase: "trim (toLowerCase s) = toLowerCase (trim s)"
  by (simp add: trim_def dropWhile_toLowerCase rev_toLowerCase)

lemma normalise_Example: "toLowerCase (trim '' Example '') = ''example''"
  by code_simp

text \<open>
  A leading no-break space is trimmed, and \<^verbatim>\<open>U+00C9\<close> is lowercased to \<^verbatim>\<open>U+00E9\<close>, while
  the multiplication sign \<^verbatim>\<open>U+00D7\<close> and the sharp s \<^verbatim>\<open>U+00DF\<close> are kept.
\<close>

lemma normalise_beyond_ASCII:
  "toLowerCase (trim (CHR 0xA0 # ''Example'' @ [CHR 0xA0])) = ''example'' \<and>
   toLowerCase [CHR 0xC9, CHR 0xD7, CHR 0xDF] = [CHR 0xE9, CHR 0xD7, CHR 0xDF]"
  by code_simp

text \<open>The words of the vocabulary store are in lower case.\<close>

lemma oxford3000Words_lowercase:
  "\<forall>w \<in> set oxford3000Words. toLowerCase (word w) = word w"
  by code_simp

lemma isCorrect_updateStats: "isCorrect (updateStats b g) = Some b"
  by (simp add: updateStats_def Let_def)

text \<open>
  C4. For every target word and every submitted text (of code units up to \<^verbatim>\<open>U+00FF\<close>,
  white space and letters beyond ASCII included), the grading is true if and only
  if the text, trimmed and lowercased, equals the target's word lowercased. In
  particular the text \<^verbatim>\<open>" Example "\<close> is graded true exactly when the target's word is
  \<^verbatim>\<open>example\<close> up to case (exactly \<^verbatim>\<open>example\<close> for a target in lower case, as all
  targets of the store are), and for the target \<^verbatim>\<open>example\<close> every text that does not
  normalise to \<^verbatim>\<open>example\<close> is graded false. The three answer handlers store this
  grading as the outcome of the round.
\<close>

theorem gradeAnswer_iff:
  "(gradeAnswer target answer \<longleftrightarrow> toLowerCase (trim answer) = toLowerCase (word target)) \<and>
   (gradeAnswer target '' Example '' \<longleftrightarrow> toLowerCase (word target) = ''example'') \<and>
   (word target = ''example'' \<longrightarrow>
      gradeAnswer target '' Example '' \<and>
      (gradeAnswer target answer \<longleftrightarrow> toLowerCase (trim answer) = ''example'')) \<and>
   (toLowerCase (word target) = word target \<longrightarrow>
      (gradeAnswer target '' Example '' \<longleftrightarrow> word target = ''example'')) \<and>
   (currentWord g = Some target \<longrightarrow>
      isCorrect (handleMultipleChoiceAnswer answer g) = Some (gradeAnswer target answer)) \<and>
   (currentWord g = Some target \<and> speechMode g = disabled \<longrightarrow>
      isCorrect (handleManualAnswer answer g) = Some (gradeAnswer target answer)) \<and>
   (currentWord g = Some target \<and> speechMode g \<noteq> disabled \<longrightarrow>
      isCorrect (startListeningForAnswer answer g) = Some (gradeAnswer target answer))"
proof -
  have general: "\<And>a. gradeAnswer target a \<longleftrightarrow> toLowerCase (trim a) = toLowerCase (word target)"
    by (simp add: gradeAnswer_def trim_toLowerCase)
  have lower_example: "toLowerCase ''example'' = ''example''"
    by code_simp
  have particular: "gradeAnswer target '' Example '' \<longleftrightarrow> toLowerCase (word target) = ''example''"
    using general [of "'' Example ''"] normalise_Example by auto
  have for_example: "word target = ''example'' \<longrightarrow>
      gradeAnswer target '' Example '' \<and>
      (gradeAnswer target answer \<longleftrightarrow> toLowerCase (trim answer) = ''example'')"
    using general [of answer] particular lower_example by auto
  have lower_target: "toLowerCase (word target) = word target \<longrightarrow>
      (gradeAnswer target '' Example '' \<longleftrightarrow> word target = ''example'')"
    using particular by auto
  have choice: "currentWord g = Some target \<longrightarrow>
      isCorrect (handleMultipleChoiceAnswer answer g) = Some (gradeAnswer target answer)"
    by (simp add: handleMultipleChoiceAnswer_def isCorrect_updateStats)
  have manual: "currentWord g = Some target \<and> speechMode g = disabled \<longrightarrow>
      isCorrect (handleManualAnswer answer g) = Some (gradeAnswer target answer)"
    by (simp add: handleManualAnswer_def isCorrect_updateStats)
  have voice: "currentWord g = Some target \<and> speechMode g \<noteq> disabled \<longrightarrow>
      isCorrect (startListeningForAnswer answer g) = Some (gradeAnswer target answer)"
    by (simp add: startListeningForAnswer_def isCorrect_updateStats)
  show ?thesis
    using general [of answer] particular for_example lower_target choice manual voice
    by blast
qed

theorem gradeAnswer_iff_witness:
  "gradeAnswer \<lparr>word = ''example'', level = A1, definition = ''a thing'',
      example = ''This is a good example.'', partOfSpeech = ''noun''\<rparr> '' Example '' \<and>
   \<not> gradeAnswer \<lparr>word = ''example'', level = A1, definition = ''a thing'',
      example = ''This is a good example.'', partOfSpeech = ''noun''\<rparr> ''examples'' \<and>
   isCorrect (handleMultipleChoiceAnswer '' Example ''
     (initialState\<lparr>currentWord := Some \<lparr>word = ''example'', level = A1,
        definition = ''a thing'', example = ''This is a good example.'',
        partOfSpeech = ''noun''\<rparr>\<rparr>)) = Some True \<and>
   isCorrect (handleManualAnswer ''examples''
     (initialState\<lparr>currentWord := Some \<lparr>word = ''example'', level = A1,
        definition = ''a thing'', example = ''This is a good example.'',
        partOfSpeech = ''noun''\<rparr>\<rparr>)) = Some False \<and>
   isCorrect (startListeningForAnswer '' Example ''
     (initialState\<lparr>speechMode := concise, currentWord := Some \<lparr>word = ''example'', level = A1,
        definition = ''a thing'', example = ''This is a good example.'',
        partOfSpeech = ''noun''\<rparr>\<rparr>)) = Some True"
proof -
  let ?w = "\<lparr>word = ''example'', level = A1, definition = ''a thing'',
      example = ''This is a good example.'', partOfSpeech = ''noun''\<rparr>"
  let ?g = "initialState\<lparr>currentWord := Some ?w\<rparr>"
  let ?v = "initialState\<lparr>speechMode := concise, currentWord := Some ?w\<rparr>"
  have w: "word ?w = ''example''" by simp
  have other: "toLowerCase (trim ''examples'') \<noteq> ''example''" by code_simp
  have g: "currentWord ?g = Some ?w \<and> speechMode ?g = disabled"
    by (simp add: initialState_def)
  have v: "currentWord ?v = Some ?w \<and> speechMode ?v \<noteq> disabled"
    by (simp add: initialState_def)
  have yes: "gradeAnswer ?w '' Example ''"
    using gradeAnswer_iff [of ?w "'' Example ''" ?g] w by blast
  have no: "\<not> gradeAnswer ?w ''examples''"
    using gradeAnswer_iff [of ?w "''examples''" ?g] w other by blast
  have choice: "isCorrect (handleMultipleChoiceAnswer '' Example '' ?g) = Some True"
    using gradeAnswer_iff [of ?w "'' Example ''" ?g] g yes by simp
  have manual: "isCorrect (handleManualAnswer ''examples'' ?g) = Some False"
    using gradeAnswer_iff [of ?w "''examples''" ?g] g no by simp
  have voice: "isCorrect (startListeningForAnswer '' Example '' ?v) = Some True"
    using gradeAnswer_iff [of ?w "'' Example ''" ?v] v yes by simp
  show ?thesis using yes no choice manual voice by simp
qed


section \<open>Distractors and options\<close>

lemma randomIndex_less: "0 < n \<Longrightarrow> randomIndex n r < n"
  by (simp add: randomIndex_def)


lemma optionsInvariant_push:
  assumes "optionsInvariant cw acc used" and "toLowerCase w \<notin> used"
  shows "optionsInvariant cw (acc @ [w]) (insert (toLowerCase w) used)"
  using assms by (auto simp add: optionsInvariant_def)

lemma pickIncorrect_inv:
  "pickIncorrect av acc used rs = Some (acc', used', rs') \<Longrightarrow>
   optionsInvariant cw acc used \<Longrightarrow> set acc \<subseteq> S \<Longrightarrow> word ` set av \<subseteq> S \<Longrightarrow> length acc \<le> 3 \<Longrightarrow>
   optionsInvariant cw acc' used' \<and> set acc' \<subseteq> S \<and> length acc' \<le> 3 \<and>
   (length acc' = 3 \<or> length av \<le> length acc')"
proof (induction av acc used rs rule: pickIncorrect.induct)
  case (1 av acc used rs)
  show ?case
  proof (cases "length acc < 3 \<and> length acc < length av")
    case False
    then have "acc' = acc \<and> used' = used"
      using "1.prems"(1) by (subst (asm) pickIncorrect.simps) auto
    then show ?thesis
      using False "1.prems" by auto
  next
    case go: True
    then obtain r rs0 where rs: "rs = r # rs0"
      using "1.prems"(1) by (subst (asm) pickIncorrect.simps) (cases rs, auto)
    define x where "x = av ! randomIndex (length av) r"
    have "randomIndex (length av) r < length av"
      using go by (intro randomIndex_less) linarith
    then have "x \<in> set av"
      unfolding x_def by (rule nth_mem)
    then have xS: "word x \<in> S"
      using "1.prems"(4) by auto
    show ?thesis
    proof (cases "toLowerCase (word x) \<notin> used")
      case True
      have step: "pickIncorrect av (acc @ [word x]) (insert (toLowerCase (word x)) used) rs0 =
          Some (acc', used', rs')"
        using "1.prems"(1) go rs True
        by (subst (asm) pickIncorrect.simps) (simp add: x_def Let_def)
      show ?thesis
        using "1.IH"(1) [OF go rs x_def True step
            optionsInvariant_push [OF "1.prems"(2) True]] "1.prems" xS go
        by simp
    next
      case False
      have step: "pickIncorrect av acc used rs0 = Some (acc', used', rs')"
        using "1.prems"(1) go rs False
        by (subst (asm) pickIncorrect.simps) (simp add: x_def Let_def)
      show ?thesis
        using "1.IH"(2) [OF go rs x_def False step] "1.prems" by simp
    qed
  qed
qed

lemma fallbackOptions_lowercase: "\<forall>f \<in> set fallbackOptions. toLowerCase f = f"
  by code_simp

lemma pickFallback_inv:
  "pickFallback acc used rs = Some (acc', used', rs') \<Longrightarrow>
   optionsInvariant cw acc used \<Longrightarrow> set acc \<subseteq> S \<Longrightarrow> set fallbackOptions \<subseteq> S \<Longrightarrow> length acc \<le> 3 \<Longrightarrow>
   optionsInvariant cw acc' used' \<and> set acc' \<subseteq> S \<and> length acc' = 3"
proof (induction acc used rs rule: pickFallback.induct)
  case (1 acc used rs)
  show ?case
  proof (cases "length acc < 3")
    case False
    then have "acc' = acc \<and> used' = used"
      using "1.prems"(1) by (subst (asm) pickFallback.simps) auto
    then show ?thesis
      using False "1.prems" by auto
  next
    case go: True
    then obtain r rs0 where rs: "rs = r # rs0"
      using "1.prems"(1) by (subst (asm) pickFallback.simps) (cases rs, auto)
    define x where "x = fallbackOptions ! randomIndex (length fallbackOptions) r"
    have "0 < length fallbackOptions"
      by (simp add: fallbackOptions_def)
    then have "randomIndex (length fallbackOptions) r < length fallbackOptions"
      by (rule randomIndex_less)
    then have mem: "x \<in> set fallbackOptions"
      unfolding x_def by (rule nth_mem)
    then have xS: "x \<in> S" and low: "toLowerCase x = x"
      using "1.prems"(4) fallbackOptions_lowercase by auto
    show ?thesis
    proof (cases "x \<notin> used")
      case True
      have step: "pickFallback (acc @ [x]) (insert x used) rs0 = Some (acc', used', rs')"
        using "1.prems"(1) go rs True
        by (subst (asm) pickFallback.simps) (simp add: x_def Let_def)
      have inv: "optionsInvariant cw (acc @ [x]) (insert x used)"
        using optionsInvariant_push [OF "1.prems"(2), of x] True low by simp
      show ?thesis
        using "1.IH"(1) [OF go rs x_def True step inv] "1.prems" xS go by simp
    next
      case False
      have step: "pickFallback acc used rs0 = Some (acc', used', rs')"
        using "1.prems"(1) go rs False
        by (subst (asm) pickFallback.simps) (simp add: x_def Let_def)
      show ?thesis
        using "1.IH"(2) [OF go rs x_def False step] "1.prems" by simp
    qed
  qed
qed

lemma pickFallback_done: "length acc = 3 \<Longrightarrow> pickFallback acc used rs = Some (acc, used, rs)"
  by (subst pickFallback.simps) simp



lemma optionsInvariant_start: "optionsInvariant cw [] {toLowerCase cw}"
  by (simp add: optionsInvariant_def)

lemma levelWords_subset: "set (samePartOfSpeech store cw lv) \<subseteq> set (levelWords store lv)"
  by (auto simp add: samePartOfSpeech_def)

lemma incorrectOptionsOf_general:
  assumes "incorrectOptionsOf store cw lv rs = Some (ds, used, rest)"
  shows "length ds = 3 \<and> optionsInvariant (word cw) ds used \<and>
     set ds \<subseteq> word ` set (availableWords store cw lv) \<union> set fallbackOptions \<and>
     (3 \<le> length (availableWords store cw lv) \<longrightarrow>
        set ds \<subseteq> word ` set (availableWords store cw lv))"
proof -
  let ?av = "availableWords store cw lv"
  obtain acc1 used1 rs1 where
    first: "pickIncorrect ?av [] {toLowerCase (word cw)} rs = Some (acc1, used1, rs1)" and
    second: "pickFallback acc1 used1 rs1 = Some (ds, used, rest)"
    using assms by (auto simp add: incorrectOptionsOf_def split: option.splits)
  have inv1: "optionsInvariant (word cw) acc1 used1 \<and>
      set acc1 \<subseteq> word ` set ?av \<union> set fallbackOptions \<and> length acc1 \<le> 3 \<and>
      (length acc1 = 3 \<or> length ?av \<le> length acc1)"
    using pickIncorrect_inv [OF first optionsInvariant_start,
        of "word ` set ?av \<union> set fallbackOptions"] by simp
  have inv1': "set acc1 \<subseteq> word ` set ?av"
    using pickIncorrect_inv [OF first optionsInvariant_start, of "word ` set ?av"] by simp
  have inv2: "optionsInvariant (word cw) ds used \<and>
      set ds \<subseteq> word ` set ?av \<union> set fallbackOptions \<and> length ds = 3"
    using pickFallback_inv [OF second, of "word cw" "word ` set ?av \<union> set fallbackOptions"]
      inv1 by simp
  have "3 \<le> length ?av \<longrightarrow> set ds \<subseteq> word ` set ?av"
  proof
    assume "3 \<le> length ?av"
    then have "length acc1 = 3" using inv1 by linarith
    then have "ds = acc1" using second pickFallback_done [of acc1 used1 rs1] by simp
    then show "set ds \<subseteq> word ` set ?av" using inv1' by simp
  qed
  then show ?thesis using inv2 by simp
qed

lemma fisherYates_mset:
  "fisherYates i xs rs = Some ys \<Longrightarrow> i < length xs \<Longrightarrow> mset ys = mset xs"
proof (induction i xs rs rule: fisherYates.induct)
  case (1 i xs rs)
  show ?case
  proof (cases "0 < i")
    case False
    then show ?thesis
      using "1.prems"(1) by (subst (asm) fisherYates.simps) simp
  next
    case True
    then obtain r rs0 where rs: "rs = r # rs0"
      using "1.prems"(1) by (subst (asm) fisherYates.simps) (cases rs, auto)
    define j where "j = randomIndex (i + 1) r"
    have "j < i + 1" unfolding j_def by (rule randomIndex_less) simp
    then have j: "j < length xs" using "1.prems"(2) by simp
    have step: "fisherYates (i - 1) (xs[i := xs ! j, j := xs ! i]) rs0 = Some ys"
      using "1.prems"(1) True rs
      by (subst (asm) fisherYates.simps) (simp add: j_def Let_def)
    have "mset ys = mset (xs[i := xs ! j, j := xs ! i])"
      using "1.IH" [OF True rs j_def step] "1.prems"(2) by simp
    then show ?thesis
      using mset_swap [OF j "1.prems"(2)] by simp
  qed
qed

lemma mset_eq_count_list: "mset xs = mset ys \<Longrightarrow> count_list xs a = count_list ys a"
  by (metis count_mset)

lemma mset_eq_map: "mset xs = mset ys \<Longrightarrow> mset (map f xs) = mset (map f ys)"
  by (metis mset_map)

lemma optionsWellFormed_mset:
  "mset opts = mset opts' \<Longrightarrow> optionsWellFormed t opts = optionsWellFormed t opts'"
proof -
  assume eq: "mset opts = mset opts'"
  have len: "length opts = length opts'"
    using eq by (rule mset_eq_length)
  have "mset (map toLowerCase opts) = mset (map toLowerCase opts')"
    using eq by (rule mset_eq_map)
  then have dis: "distinct (map toLowerCase opts) = distinct (map toLowerCase opts')"
    by (rule mset_eq_imp_distinct_iff)
  have cnt: "count_list opts t = count_list opts' t"
    using eq by (rule mset_eq_count_list)
  show ?thesis
    by (simp add: optionsWellFormed_def len dis cnt)
qed

text \<open>Options produced by the primary path are well formed.\<close>

lemma generateMultipleChoiceOptions_wellFormed:
  assumes "generateMultipleChoiceOptions store cw lv rs = Some opts"
  shows "optionsWellFormed (word cw) opts"
proof -
  obtain ds used rest where
    inc: "incorrectOptionsOf store cw lv rs = Some (ds, used, rest)" and
    shuf: "fisherYates (length (word cw # take 3 ds) - 1) (word cw # take 3 ds) rest = Some opts"
    using assms
    by (auto simp add: generateMultipleChoiceOptions_def Let_def split: option.splits)
  have props: "length ds = 3" "optionsInvariant (word cw) ds used"
    using incorrectOptionsOf_general [OF inc] by simp_all
  have "mset opts = mset (word cw # ds)"
    using fisherYates_mset [OF shuf] props(1) by simp
  moreover have "optionsWellFormed (word cw) (word cw # ds)"
  proof -
    have "word cw \<notin> set ds"
      using props(2) by (auto simp add: optionsInvariant_def)
    then have "count_list ds (word cw) = 0"
      by (simp add: count_list_0_iff)
    then show ?thesis
      using props by (auto simp add: optionsWellFormed_def optionsInvariant_def)
  qed
  ultimately show ?thesis
    using optionsWellFormed_mset by blast
qed
























section \<open>Starting a round when the provider fails\<close>

lemma randomSort_mset: "mset (randomSort xs rs) = mset xs"
proof (induction xs arbitrary: rs)
  case Nil
  then show ?case by (simp add: randomSort.simps)
next
  case (Cons x xs)
  have "\<And>i ys. mset (take i ys @ x # drop i ys) = add_mset x (mset ys)"
    by (metis append_take_drop_id mset.simps(2) mset_append union_mset_add_mset_right)
  then show ?case
    using Cons.IH by (simp add: Let_def randomSort.simps)
qed

lemma getRandomWord_nonempty:
  assumes "(case l of Some lv \<Rightarrow> getWordsByLevel store lv | None \<Rightarrow> store) \<noteq> []"
  shows "\<exists>w. getRandomWord store l r = Some w \<and>
     w \<in> set (case l of Some lv \<Rightarrow> getWordsByLevel store lv | None \<Rightarrow> store)"
proof -
  let ?words = "case l of Some lv \<Rightarrow> getWordsByLevel store lv | None \<Rightarrow> store"
  have "randomIndex (length ?words) r < length ?words"
    using assms by (simp add: randomIndex_def)
  then show ?thesis
    by (simp add: getRandomWord_def Let_def)
qed

lemma oxford3000Words_every_level: "getWordsByLevel oxford3000Words l \<noteq> []"
  by (cases l) (simp_all add: getWordsByLevel_def oxford3000Words_def)

lemma oxford3000Words_nonempty: "oxford3000Words \<noteq> []"
  by (simp add: oxford3000Words_def)

text \<open>
  Whatever error the primary path throws, for every selected level and every random
  choice, \<^verbatim>\<open>startGame\<close> does not throw: the fallback sets a target drawn from the store, of
  the selected level when that is not \<^verbatim>\<open>ALL\<close>, and four options, the target's word and
  the three fixed words, in some order.
\<close>

lemma startGame_fallback_succeeds:
  "\<exists>g' w. startGame oxford3000Words (Inl e) r rs g = Inr g' \<and>
     currentWord g' = Some w \<and> w \<in> set oxford3000Words \<and>
     (\<forall>l. selectedLevel g = Level l \<longrightarrow> level w = l) \<and>
     mset (multipleChoiceOptions g') = mset [word w, ''example'', ''answer'', ''question''] \<and>
     length (multipleChoiceOptions g') = 4 \<and>
     gameStats g' = gameStats g \<and> speechMode g' = speechMode g"
proof -
  let ?l = "case selectedLevel g of LevelALL \<Rightarrow> None | Level l \<Rightarrow> Some l"
  let ?words = "case ?l of Some lv \<Rightarrow> getWordsByLevel oxford3000Words lv | None \<Rightarrow> oxford3000Words"
  have "?words \<noteq> []"
    using oxford3000Words_every_level oxford3000Words_nonempty
    by (cases "selectedLevel g") simp_all
  then obtain w where w: "getRandomWord oxford3000Words ?l r = Some w" "w \<in> set ?words"
    using getRandomWord_nonempty [where l = ?l and store = oxford3000Words and r = r] by blast
  have mem: "w \<in> set oxford3000Words"
    using w(2) by (cases "selectedLevel g") (simp_all add: getWordsByLevel_def)
  have lev: "\<forall>l. selectedLevel g = Level l \<longrightarrow> level w = l"
    using w(2) by (auto simp add: getWordsByLevel_def)
  have len: "length (randomSort [word w, ''example'', ''answer'', ''question''] rs) = 4"
    using mset_eq_length [OF randomSort_mset [of "[word w, ''example'', ''answer'', ''question'']" rs]]
    by simp
  show ?thesis
    using w(1) mem lev len
    by (simp add: startGame_def startGameFallback_def Let_def randomSort_mset)
qed

lemma answer_drawn: "getRandomWord oxford3000Words (Some A1) 17 = Some (oxford3000Words ! 17)"
  by code_simp

lemma answer_word: "word (oxford3000Words ! 17) = ''answer'' \<and> level (oxford3000Words ! 17) = A1"
  by code_simp

text \<open>
  The clue of the fallback masks the first occurrence of the word in the example
  sentence, in the same case only: for \<^verbatim>\<open>all\<close> the sentence is left as it is.
\<close>

lemma fallback_clue_unmasked:
  "word (oxford3000Words ! 6) = ''all'' \<and>
   replace (example (oxford3000Words ! 6)) (word (oxford3000Words ! 6)) ''____'' =
     ''All students must attend.''"
  by code_simp

text \<open>
  C1 at level \<^verbatim>\<open>A1\<close>, when the provider is not available and the word drawn from the
  store is \<^verbatim>\<open>answer\<close>: the fallback returns a challenge of level \<^verbatim>\<open>A1\<close> without throwing,
  but its options hold \<^verbatim>\<open>answer\<close> twice, so it is not well formed.
\<close>

theorem startGame_fallback_not_wellFormed:
  "(case startGame oxford3000Words (Inl ''AI service not available'') 17 []
          (initialState\<lparr>selectedLevel := Level A1\<rparr>) of
      Inl err \<Rightarrow> False
    | Inr g \<Rightarrow>
        map_option word (currentWord g) = Some ''answer'' \<and>
        map_option level (currentWord g) = Some A1 \<and>
        multipleChoiceOptions g = [''answer'', ''example'', ''answer'', ''question''] \<and>
        \<not> challengeWellFormed g)"
proof -
  have sel: "selectedLevel (initialState\<lparr>selectedLevel := Level A1\<rparr>) = Level A1"
    by simp
  have dup: "\<not> optionsWellFormed ''answer'' [''answer'', ''example'', ''answer'', ''question'']"
    by (simp add: optionsWellFormed_def)
  show ?thesis
    using answer_drawn answer_word dup
    by (simp add: startGame_def startGameFallback_def Let_def challengeWellFormed_def
        randomIndex_def randomSort.simps)
qed

text \<open>
  C2 on the fallback path: when the word drawn from the store is \<^verbatim>\<open>answer\<close>, the options
  are \<^verbatim>\<open>answer\<close>, \<^verbatim>\<open>example\<close>, \<^verbatim>\<open>answer\<close> and \<^verbatim>\<open>question\<close> in some order: the target occurs
  twice and the four options are not distinct, whatever error the provider threw and
  whatever order the sort produces.
\<close>

theorem fallback_options_repeat_answer:
  "\<exists>g. startGame oxford3000Words (Inl e) 17 rs (initialState\<lparr>selectedLevel := Level A1\<rparr>) = Inr g \<and>
     map_option word (currentWord g) = Some ''answer'' \<and>
     length (multipleChoiceOptions g) = 4 \<and>
     count_list (multipleChoiceOptions g) ''answer'' = 2 \<and>
     \<not> distinct (map toLowerCase (multipleChoiceOptions g)) \<and>
     \<not> optionsWellFormed ''answer'' (multipleChoiceOptions g)"
proof -
  let ?all = "[''answer'', ''example'', ''answer'', ''question'']"
  let ?opts = "randomSort ?all rs"
  have m: "mset ?opts = mset ?all"
    by (rule randomSort_mset)
  have len: "length ?opts = 4"
    using mset_eq_length [OF m] by simp
  have "count_list ?opts ''answer'' = count_list ?all ''answer''"
    using m by (rule mset_eq_count_list)
  then have cnt: "count_list ?opts ''answer'' = 2"
    by simp
  have bad: "\<not> optionsWellFormed ''answer'' ?all"
    by (simp add: optionsWellFormed_def)
  then have wf: "\<not> optionsWellFormed ''answer'' ?opts"
    using optionsWellFormed_mset [OF m] by simp
  have "mset (map toLowerCase ?opts) = mset (map toLowerCase ?all)"
    using m by (rule mset_eq_map)
  then have "distinct (map toLowerCase ?opts) = distinct (map toLowerCase ?all)"
    by (rule mset_eq_imp_distinct_iff)
  then have dis: "\<not> distinct (map toLowerCase ?opts)"
    by simp
  show ?thesis
    using answer_drawn answer_word len cnt dis wf
    by (simp add: startGame_def startGameFallback_def Let_def)
qed
end
